theory Spec2Isabelle
  imports Main "HOL-Library.Char_ord" "HOL-Library.List_Lexorder" "HOL-Library.Sublist"
begin

section \<open>Values shared by the modules\<close>

text \<open>
  Every \<^verbatim>\<open>throw\<close> and every \<^verbatim>\<open>reject\<close> of the sources is a constructor of
  \<open>error\<close>; the arguments are the values interpolated into the message.
  \<open>TypeError\<close> stands for the exception the JavaScript runtime raises when a property or
  method of \<^verbatim>\<open>undefined\<close> or \<^verbatim>\<open>null\<close> is used.
\<close>

datatype error =
    Invalid_URL_no_protocol string
  | URL_not_dereferencable string
  | URL_isnt_valid string
  | Unsafe_port_number string string
  | Invalid_port_number string string
  | HTTP_response nat string string
  | Problem_accessing string string
  | HTML_parsing_error string error
  | User_config_not_available
  | TypeError

text \<open>
  The object \<^verbatim>\<open>urlHandler.parse\<close> returns, with the fields the sources read;
  \<open>None\<close> is JavaScript's \<^verbatim>\<open>null\<close>.
\<close>

record UrlObject =
  protocol :: "string option"
  slashes :: bool
  host :: "string option"
  port :: "string option"
  path :: "string option"
  hash :: "string option"

text \<open>The part of a \<^verbatim>\<open>fetch\<close> response the sources read.\<close>

record response =
  ok :: bool
  status :: nat
  statusText :: string
  content_type :: "string option"
  body :: string

text \<open>What \<^verbatim>\<open>fetch_resource\<close> resolves to: a text, or the body as a stream.\<close>

datatype content = Text string | Stream string

section \<open>The libraries the sources call\<close>

text \<open>
  The packages \<^verbatim>\<open>url\<close>, \<^verbatim>\<open>valid-url\<close> and \<^verbatim>\<open>node-fetch\<close> are not part of
  the repository. The model takes them as parameters: \<open>url_parse\<close>, \<open>url_format\<close> and
  \<open>url_resolve\<close> are \<^verbatim>\<open>urlHandler.parse\<close>, \<^verbatim>\<open>urlHandler.format\<close> and
  \<^verbatim>\<open>urlHandler.resolve\<close>; \<open>isWebUri\<close> is \<^verbatim>\<open>validUrl.isWebUri\<close> (\<open>None\<close> is
  \<^verbatim>\<open>undefined\<close>); \<open>my_fetch\<close> is the network: \<open>Inl err\<close> when the promise of
  \<^verbatim>\<open>my_fetch\<close> rejects with \<open>err\<close>, \<open>Inr r\<close> when it resolves to the response \<open>r\<close>.
  The last parameter is a built-in of the runtime: \<open>builtin_toUpperCase\<close> is
  \<^verbatim>\<open>String.prototype.toUpperCase\<close>, which the model consults for the strings that
  hold a character outside ASCII (see \<open>toUpperCase\<close> below).
\<close>

record web =
  url_parse :: "string \<Rightarrow> UrlObject"
  url_format :: "UrlObject \<Rightarrow> string"
  url_resolve :: "string \<Rightarrow> string \<Rightarrow> string"
  isWebUri :: "string \<Rightarrow> string option"
  my_fetch :: "string \<Rightarrow> string + response"
  builtin_toUpperCase :: "string \<Rightarrow> string"

section \<open>fetch: the checks on a URL and the two fetch operations\<close>

text \<open>
  \<^verbatim>\<open>Number(parsed.port)\<close>. The legacy parser only yields ports made of decimal digits;
  on those \<^verbatim>\<open>Number\<close> is the decimal value. Any other string is mapped to \<open>None\<close>
  (\<^verbatim>\<open>NaN\<close>), for which every comparison is false. (JavaScript rounds very large values
  to a double; that never moves a value across 1024.)
\<close>

definition digit_value :: "char \<Rightarrow> nat option" where
  "digit_value c = map_of (zip ''0123456789'' [0, 1, 2, 3, 4, 5, 6, 7, 8, 9]) c"

fun Number_from :: "nat \<Rightarrow> string \<Rightarrow> nat option" where
  "Number_from acc [] = Some acc"
| "Number_from acc (c # cs) =
     (case digit_value c of None \<Rightarrow> None | Some d \<Rightarrow> Number_from (10 * acc + d) cs)"

definition Number :: "string \<Rightarrow> nat option" where
  "Number s = Number_from 0 s"

text \<open>\<^verbatim>\<open>portNumber <= 1024\<close>, false for \<^verbatim>\<open>NaN\<close>.\<close>

definition le_1024 :: "nat option \<Rightarrow> bool" where
  "le_1024 portNumber = (case portNumber of None \<Rightarrow> False | Some n \<Rightarrow> n \<le> 1024)"

text \<open>
  \<^verbatim>\<open>check_Web_url\<close>. The port check throws inside a \<^verbatim>\<open>try\<close> whose \<^verbatim>\<open>catch\<close>
  throws the "Invalid port number" error in its place.
\<close>

definition check_Web_url :: "web \<Rightarrow> string \<Rightarrow> error + string" where
  "check_Web_url w address =
     (let parsed = url_parse w address in
      case protocol parsed of
        None \<Rightarrow> Inl (Invalid_URL_no_protocol address)
      | Some proto \<Rightarrow>
          if proto \<notin> set [''http:'', ''https:'']
          then Inl (URL_not_dereferencable address)
          else (case isWebUri w address of
                  None \<Rightarrow> Inl (URL_isnt_valid address)
                | Some retval \<Rightarrow>
                    (case port parsed of
                       None \<Rightarrow> Inr retval
                     | Some p \<Rightarrow>
                         (case (if le_1024 (Number p)
                                then Inl (Unsafe_port_number address p)
                                else Inr ()) of
                            Inl e \<Rightarrow> Inl (Invalid_port_number address p)
                          | Inr u \<Rightarrow> Inr retval))))"

text \<open>Media types of textual content (\<^verbatim>\<open>text_content\<close> of the fetch module).\<close>

definition text_content_types :: "string list" where
  "text_content_types =
     [''application/json'', ''application/ld+json'', ''text/html'', ''application/xhtml+xml'',
      ''text/css'', ''image/svg+xml'', ''text/javascript'', ''text/ecmascript'']"

text \<open>
  \<^verbatim>\<open>fetch_resource\<close> and \<^verbatim>\<open>fetch_type\<close>. Each returns what its promise settles to
  (\<open>Inl\<close>: rejected) and the list of the requests it handed to \<open>my_fetch\<close>.
\<close>

definition fetch_resource :: "web \<Rightarrow> string \<Rightarrow> bool \<Rightarrow> (error + content) \<times> string list" where
  "fetch_resource w resource_url force_text =
     (case check_Web_url w resource_url of
        Inl err \<Rightarrow> (Inl err, [])
      | Inr final_url \<Rightarrow>
          ((case my_fetch w final_url of
              Inl err \<Rightarrow> Inl (Problem_accessing resource_url err)
            | Inr r \<Rightarrow>
                if ok r then
                  (case content_type r of
                     None \<Rightarrow> Inr (Text (body r))
                   | Some response_type \<Rightarrow>
                       if response_type \<noteq> [] then
                         (if response_type \<in> set text_content_types then Inr (Text (body r))
                          else if force_text then Inr (Text (body r))
                          else Inr (Stream (body r)))
                       else Inr (Text (body r)))
                else Inl (HTTP_response (status r) (statusText r) resource_url)),
           [final_url]))"

definition fetch_type :: "web \<Rightarrow> string \<Rightarrow> (error + string option) \<times> string list" where
  "fetch_type w resource_url =
     (case check_Web_url w resource_url of
        Inl err \<Rightarrow> (Inl err, [])
      | Inr final_url \<Rightarrow>
          ((case my_fetch w final_url of
              Inl err \<Rightarrow> Inl (Problem_accessing resource_url err)
            | Inr r \<Rightarrow>
                if ok r then Inr (content_type r)
                else Inl (HTTP_response (status r) (statusText r) resource_url)),
           [final_url]))"

section \<open>The document tree\<close>

text \<open>
  The DOM comes from \<^verbatim>\<open>jsdom\<close>. An element is modelled by its local name (the tag
  name in lower case), its attributes, its text content and its child elements. An
  element of a tree is identified by the path of child indices that leads to it from the
  root.
\<close>

datatype element =
  Element (localName: string) (attributes: "(string \<times> string) list")
    (textContent: string) (children: "element list")

definition getAttribute :: "element \<Rightarrow> string \<Rightarrow> string option" where
  "getAttribute e a = map_of (attributes e) a"

definition hasAttribute :: "element \<Rightarrow> string \<Rightarrow> bool" where
  "hasAttribute e a = (getAttribute e a \<noteq> None)"

fun set_entry :: "string \<Rightarrow> string \<Rightarrow> (string \<times> string) list \<Rightarrow> (string \<times> string) list" where
  "set_entry a v [] = [(a, v)]"
| "set_entry a v ((b, u) # kvs) = (if a = b then (a, v) # kvs else (b, u) # set_entry a v kvs)"

fun setAttribute :: "string \<Rightarrow> string \<Rightarrow> element \<Rightarrow> element" where
  "setAttribute a v (Element t as x cs) = Element t (set_entry a v as) x cs"

fun append_child :: "element \<Rightarrow> element \<Rightarrow> element" where
  "append_child new (Element t as x cs) = Element t as x (cs @ [new])"

text \<open>The proper descendants of an element in document order, each with its path.\<close>

fun descendants :: "element \<Rightarrow> (nat list \<times> element) list"
  and descendants_from :: "nat \<Rightarrow> element list \<Rightarrow> (nat list \<times> element) list" where
  "descendants (Element t as x cs) = descendants_from 0 cs"
| "descendants_from i [] = []"
| "descendants_from i (c # cs) =
     ([i], c) # map (\<lambda>(p, e). (i # p, e)) (descendants c) @ descendants_from (Suc i) cs"

text \<open>Applies \<open>f\<close> to the element at a path (nothing changes when the path leads nowhere).\<close>

fun update_at :: "nat list \<Rightarrow> (element \<Rightarrow> element) \<Rightarrow> element \<Rightarrow> element" where
  "update_at [] f e = f e"
| "update_at (i # p) f (Element t as x cs) =
     Element t as x (if i < length cs then cs[i := update_at p f (cs ! i)] else cs)"

text \<open>
  The selectors the sources use: \<^verbatim>\<open>'img'\<close> is \<open>ByTag ''img''\<close>,
  \<^verbatim>\<open>'link[rel="stylesheet"]'\<close> is \<open>ByTagAttr ''link'' ''rel'' ''stylesheet''\<close>,
  \<^verbatim>\<open>'script#initialUserConfig'\<close> is \<open>ByTagId ''script'' ''initialUserConfig''\<close> and
  \<^verbatim>\<open>'time.dt-published'\<close> is \<open>ByTagClass ''time'' ''dt-published''\<close>.
\<close>

datatype selector =
    ByTag string
  | ByTagAttr string string string
  | ByTagId string string
  | ByTagClass string string

text \<open>The tokens of a \<^verbatim>\<open>class\<close> attribute: the maximal runs without white space.\<close>

definition white_space :: "char list" where
  "white_space = [CHR '' '', CHR 0x09, CHR 0x0A, CHR 0x0C, CHR 0x0D]"

fun class_tokens :: "string \<Rightarrow> string \<Rightarrow> string list" where
  "class_tokens cur [] = (if cur = [] then [] else [cur])"
| "class_tokens cur (c # cs) =
     (if c \<in> set white_space then (if cur = [] then [] else [cur]) @ class_tokens [] cs
      else class_tokens (cur @ [c]) cs)"

text \<open>
  The letters of ASCII in upper case; every other character is kept.
\<close>

definition upper_char :: "char \<Rightarrow> char" where
  "upper_char c =
     (case map_of (zip ''abcdefghijklmnopqrstuvwxyz'' ''ABCDEFGHIJKLMNOPQRSTUVWXYZ'') c of
        None \<Rightarrow> c
      | Some u \<Rightarrow> u)"

definition ascii_upper :: "string \<Rightarrow> string" where
  "ascii_upper s = map upper_char s"

text \<open>
  An attribute selector \<^verbatim>\<open>[a="v"]\<close> on an element of an HTML document: for the
  attributes of the list below (the list of the HTML standard; \<^verbatim>\<open>rel\<close> is one of
  them) the value is compared without regard to the case of the letters of ASCII, so
  that \<^verbatim>\<open>rel="Stylesheet"\<close> is matched by \<^verbatim>\<open>link[rel="stylesheet"]\<close>; for every
  other attribute (\<^verbatim>\<open>alt\<close> is one) the value is compared character by character.
\<close>

definition case_insensitive_attributes :: "string list" where
  "case_insensitive_attributes =
     [''accept'', ''accept-charset'', ''align'', ''alink'', ''axis'', ''bgcolor'', ''charset'',
      ''checked'', ''clear'', ''codetype'', ''color'', ''compact'', ''declare'', ''defer'',
      ''dir'', ''direction'', ''disabled'', ''enctype'', ''face'', ''frame'', ''hreflang'',
      ''http-equiv'', ''lang'', ''language'', ''link'', ''media'', ''method'', ''multiple'',
      ''nohref'', ''noresize'', ''noshade'', ''nowrap'', ''readonly'', ''rel'', ''rev'',
      ''rules'', ''scope'', ''scrolling'', ''selected'', ''shape'', ''target'', ''text'',
      ''type'', ''valign'', ''valuetype'', ''vlink'']"

definition attribute_value_matches :: "string \<Rightarrow> string \<Rightarrow> string \<Rightarrow> bool" where
  "attribute_value_matches a v u =
     (if a \<in> set case_insensitive_attributes then ascii_upper u = ascii_upper v else u = v)"

fun matches :: "selector \<Rightarrow> element \<Rightarrow> bool" where
  "matches (ByTag t) e = (localName e = t)"
| "matches (ByTagAttr t a v) e =
     (localName e = t \<and>
      (case getAttribute e a of
         None \<Rightarrow> False
       | Some u \<Rightarrow> attribute_value_matches a v u))"
| "matches (ByTagId t i) e = (localName e = t \<and> getAttribute e ''id'' = Some i)"
| "matches (ByTagClass t c) e =
     (localName e = t \<and>
      (case getAttribute e ''class'' of
         None \<Rightarrow> False
       | Some cl \<Rightarrow> c \<in> set (class_tokens [] cl)))"

definition querySelectorAll :: "element \<Rightarrow> selector \<Rightarrow> (nat list \<times> element) list" where
  "querySelectorAll root sel = filter (\<lambda>pe. matches sel (snd pe)) (descendants root)"

definition querySelector :: "element \<Rightarrow> selector \<Rightarrow> (nat list \<times> element) option" where
  "querySelector root sel = List.find (\<lambda>pe. matches sel (snd pe)) (descendants root)"

section \<open>process: the data of a run\<close>

text \<open>
  \<^verbatim>\<open>ResourceRef\<close>. \<open>None\<close> is an absent field; the media type a server did not send
  (\<^verbatim>\<open>headers.get\<close> returned \<^verbatim>\<open>null\<close>) is \<open>None\<close> too. The field \<^verbatim>\<open>id\<close> is
  \<open>id'\<close> here.
\<close>

record ResourceRef =
  relative_url :: string
  media_type :: "string option"
  absolute_url :: "string option"
  text_content :: "string option"
  id' :: "string option"
  properties :: "string option"

text \<open>
  The ReSpec configuration, parsed from JSON. A field is \<open>Some s\<close> when the member is the
  string \<open>s\<close> and \<open>None\<close> when the member is missing (\<^verbatim>\<open>undefined\<close>); members of other
  types are outside the model.
\<close>

record editor =
  editor_name :: "string option"
  company :: "string option"

record config =
  shortName :: "string option"
  specStatus :: "string option"
  editors :: "editor list option"

section \<open>Promises awaited together\<close>

text \<open>
  \<^verbatim>\<open>Promise.all\<close> over promises that settle to \<open>results\<close> (\<open>Inl\<close>: rejected), in
  request order. It resolves to the values in request order when none is rejected, and
  rejects with the error of the promise that is rejected first. \<open>settle_order\<close> lists the
  request indices in the order in which the promises settle; should it leave a rejected
  promise out, the rejections follow in request order.
\<close>

fun rejections :: "(error + 'a) list \<Rightarrow> error list" where
  "rejections [] = []"
| "rejections (Inl e # rs) = e # rejections rs"
| "rejections (Inr v # rs) = rejections rs"

fun fulfilments :: "(error + 'a) list \<Rightarrow> 'a list" where
  "fulfilments [] = []"
| "fulfilments (Inl e # rs) = fulfilments rs"
| "fulfilments (Inr v # rs) = v # fulfilments rs"

definition Promise_all :: "nat list \<Rightarrow> (error + 'a) list \<Rightarrow> error + 'a list" where
  "Promise_all settle_order results =
     (case rejections (map (\<lambda>i. results ! i) (filter (\<lambda>i. i < length results) settle_order))
             @ rejections results of
        [] \<Rightarrow> Inr (fulfilments results)
      | e # es \<Rightarrow> Inl e)"

text \<open>\<^verbatim>\<open>_.uniq\<close>: keeps the first occurrence of every value, in order.\<close>

fun uniq_into :: "'a list \<Rightarrow> 'a list \<Rightarrow> 'a list" where
  "uniq_into result [] = result"
| "uniq_into result (x # xs) =
     (if x \<in> set result then uniq_into result xs else uniq_into (result @ [x]) xs)"

definition uniq :: "'a list \<Rightarrow> 'a list" where
  "uniq xs = uniq_into [] xs"

section \<open>opf: the package document\<close>

text \<open>
  \<^verbatim>\<open>thePackage\<close>, the object \<^verbatim>\<open>PackageWrapper\<close> builds and hands to
  \<^verbatim>\<open>xmlbuilder2\<close>. The attributes of the \<^verbatim>\<open>package\<close> element (name spaces, version,
  language) are constants and are left out.
\<close>

record meta_entry =
  meta_property :: string
  meta_refines :: "string option"
  meta_scheme :: "string option"
  meta_value :: string

record creator_entry =
  creator_id :: string
  creator_value :: string

record manifest_item =
  item_href :: string
  item_media_type :: "string option"
  item_id :: string
  item_properties :: "string option"

record metadata =
  dc_identifier :: string
  dc_title :: string
  dc_language :: string
  meta :: "meta_entry list"
  dc_rights :: string
  dc_publisher :: string
  link_href :: string
  link_rel :: string
  dc_creator :: "creator_entry list"

record package_document =
  metadata :: metadata
  manifest :: "manifest_item list"
  spine :: "string list"

text \<open>The instance: the counter \<^verbatim>\<open>this.id\<close> for the creators' ids, and the package.\<close>

record PackageWrapper =
  creator_count :: nat
  thePackage :: package_document

text \<open>A natural number in decimal, as a template literal prints it.\<close>

fun string_of_nat :: "nat \<Rightarrow> string" where
  "string_of_nat n =
     (if n < 10 then [''0123456789'' ! n]
      else string_of_nat (n div 10) @ [''0123456789'' ! (n mod 10)])"

text \<open>A string or \<^verbatim>\<open>undefined\<close> / \<^verbatim>\<open>null\<close> inside a template literal.\<close>

definition or_undefined :: "string option \<Rightarrow> string" where
  "or_undefined v = (case v of None \<Rightarrow> ''undefined'' | Some s \<Rightarrow> s)"

definition or_null :: "string option \<Rightarrow> string" where
  "or_null v = (case v of None \<Rightarrow> ''null'' | Some s \<Rightarrow> s)"

definition new_PackageWrapper :: "string \<Rightarrow> string \<Rightarrow> PackageWrapper" where
  "new_PackageWrapper identifier title =
     \<lparr> creator_count = 0,
       thePackage =
         \<lparr> metadata =
             \<lparr> dc_identifier = identifier,
               dc_title = title,
               dc_language = ''en-us'',
               meta =
                 [\<lparr> meta_property = ''title-type'', meta_refines = Some ''#title'',
                     meta_scheme = None, meta_value = ''main'' \<rparr>,
                  \<lparr> meta_property = ''cc:attributionURL'', meta_refines = None,
                     meta_scheme = None, meta_value = ''https://www.w3.org'' \<rparr>],
               dc_rights = ''https://www.w3.org/Consortium/Legal/2015/doc-license'',
               dc_publisher = ''World Wide Web Consortium'',
               link_href = ''https://www.w3.org/Consortium/Legal/2015/doc-license'',
               link_rel = ''cc:license'',
               dc_creator = [] \<rparr>,
           manifest = [],
           spine = [''start'', ''main''] \<rparr> \<rparr>"

definition add_manifest_item :: "manifest_item \<Rightarrow> PackageWrapper \<Rightarrow> PackageWrapper" where
  "add_manifest_item item pw =
     pw\<lparr> thePackage := (thePackage pw)\<lparr> manifest := manifest (thePackage pw) @ [item] \<rparr> \<rparr>"

definition add_creator :: "string \<Rightarrow> PackageWrapper \<Rightarrow> PackageWrapper" where
  "add_creator creator pw =
     (let md = metadata (thePackage pw);
          md1 = md\<lparr> dc_creator := dc_creator md @
                   [\<lparr> creator_id = ''creator_id_'' @ string_of_nat (creator_count pw),
                      creator_value = creator \<rparr>] \<rparr>;
          md2 = md1\<lparr> meta := meta md1 @
                   [\<lparr> meta_property = ''role'',
                      meta_refines = Some (''#creator_id_'' @ string_of_nat (creator_count pw)),
                      meta_scheme = Some ''marc:relators'', meta_value = ''edt'' \<rparr>] \<rparr>
      in pw\<lparr> creator_count := Suc (creator_count pw),
             thePackage := (thePackage pw)\<lparr> metadata := md2 \<rparr> \<rparr>)"

definition add_creators :: "string list \<Rightarrow> PackageWrapper \<Rightarrow> PackageWrapper" where
  "add_creators creators pw = foldl (\<lambda>acc creator. add_creator creator acc) pw creators"

definition add_dates :: "string option \<Rightarrow> PackageWrapper \<Rightarrow> PackageWrapper" where
  "add_dates date pw =
     (let md = metadata (thePackage pw);
          md1 = md\<lparr> meta := meta md @
                   [\<lparr> meta_property = ''dcterms:date'', meta_refines = None,
                      meta_scheme = None, meta_value = or_null date @ ''T00:00:00Z'' \<rparr>] \<rparr>;
          md2 = md1\<lparr> meta := meta md1 @
                   [\<lparr> meta_property = ''dcterms:modified'', meta_refines = None,
                      meta_scheme = None, meta_value = or_null date @ ''T00:00:00Z'' \<rparr>] \<rparr>
      in pw\<lparr> thePackage := (thePackage pw)\<lparr> metadata := md2 \<rparr> \<rparr>)"

text \<open>
  \<^verbatim>\<open>serialize\<close>: the XML text, and the instance after the call. \<open>convert\<close> is
  \<^verbatim>\<open>xmlbuilder2.convert\<close> with the fixed options. The library is not part of the
  repository: it enters as a function from the package object to the text, and what it
  does to the object it is handed lies outside the model. The method itself assigns no
  field of the instance.
\<close>

definition serialize :: "(package_document \<Rightarrow> string) \<Rightarrow> PackageWrapper \<Rightarrow> string \<times> PackageWrapper" where
  "serialize convert pw = (convert (thePackage pw), pw)"

section \<open>ocf: the container\<close>

text \<open>
  Modelled from the spec: the class \<^verbatim>\<open>OCF\<close> (module \<^verbatim>\<open>./ocf\<close>) is not among the
  sources. The model keeps the file name, the entries appended by the callers (content
  and path, in order) and whether \<^verbatim>\<open>finalize\<close> has run.
\<close>

record OCF =
  ocf_name :: string
  ocf_entries :: "(content \<times> string) list"
  finalized :: bool

definition new_OCF :: "string \<Rightarrow> OCF" where
  "new_OCF n = \<lparr> ocf_name = n, ocf_entries = [], finalized = False \<rparr>"

definition ocf_append :: "content \<Rightarrow> string \<Rightarrow> OCF \<Rightarrow> OCF" where
  "ocf_append c p b = b\<lparr> ocf_entries := ocf_entries b @ [(c, p)] \<rparr>"

definition ocf_finalize :: "OCF \<Rightarrow> OCF" where
  "ocf_finalize b = b\<lparr> finalized := True \<rparr>"

section \<open>process: one document\<close>

text \<open>
  \<^verbatim>\<open>Global\<close>, the data of a run. The source declares every field optional because
  \<^verbatim>\<open>process\<close> fills them one after the other; the record is the data once steps 1
  and 2 have filled it.
\<close>

record Global =
  document_url :: string
  html_element :: element
  config :: config
  package :: PackageWrapper
  resources :: "ResourceRef list"

text \<open>
  What \<^verbatim>\<open>process\<close> calls beyond the fetch module, taken as parameters. Three are
  libraries: \<open>JSDOM\<close> parses the fetched text at a URL into the document element,
  \<open>JSON_parse\<close> is \<^verbatim>\<open>JSON.parse\<close> on the text of the configuration script, and
  \<open>xml_convert\<close> is \<^verbatim>\<open>xmlbuilder2.convert\<close> with the options \<^verbatim>\<open>serialize\<close> passes.
\<close>

text \<open>
  Modelled from the spec: \<^verbatim>\<open>cover.create_cover_page\<close>, \<^verbatim>\<open>nav.create_nav_file\<close> and
  \<^verbatim>\<open>create_xhtml.convert_dom\<close> belong to modules of the repository that are not among
  the sources. The cover builder and the navigation builder produce ResourceRefs from the
  data of the run, and the document transformer produces the text of the document; they
  are the fields \<open>create_cover_page\<close>, \<open>create_nav_file\<close> and \<open>convert_dom\<close>.
\<close>

record collaborators =
  JSDOM :: "content \<Rightarrow> string \<Rightarrow> error + element"
  JSON_parse :: "string \<Rightarrow> error + config"
  xml_convert :: "package_document \<Rightarrow> string"
  create_cover_page :: "Global \<Rightarrow> ResourceRef list"
  create_nav_file :: "Global \<Rightarrow> ResourceRef list"
  convert_dom :: "element \<Rightarrow> string"

text \<open>\<^verbatim>\<open>fetch_html\<close>: any failure is wrapped into the "HTML parsing error".\<close>

definition fetch_html :: "web \<Rightarrow> collaborators \<Rightarrow> string \<Rightarrow> (error + element) \<times> string list" where
  "fetch_html w c html_url =
     (case fetch_resource w html_url True of
        (Inl err, reqs) \<Rightarrow> (Inl (HTML_parsing_error html_url err), reqs)
      | (Inr fetched, reqs) \<Rightarrow>
          (case JSDOM c fetched html_url of
             Inl err \<Rightarrow> (Inl (HTML_parsing_error html_url err), reqs)
           | Inr retval \<Rightarrow> (Inr retval, reqs)))"

text \<open>The query and attribute pairs that may refer to a resource.\<close>

definition resource_references :: "(selector \<times> string) list" where
  "resource_references =
     [(ByTag ''img'', ''src''),
      (ByTag ''a'', ''href''),
      (ByTagAttr ''link'' ''rel'' ''stylesheet'', ''href''),
      (ByTag ''object'', ''data'')]"

text \<open>The chain of \<^verbatim>\<open>get_extra_resources\<close>: the values, the filter, the fragment removed.\<close>

definition candidates :: "element \<Rightarrow> string option list" where
  "candidates html =
     concat (map (\<lambda>(query, attr). map (\<lambda>pe. getAttribute (snd pe) attr) (querySelectorAll html query))
               resource_references)"

definition is_relative :: "web \<Rightarrow> string option \<Rightarrow> bool" where
  "is_relative w ref =
     (case ref of
        None \<Rightarrow> False
      | Some r \<Rightarrow>
          if r \<noteq> [] then
            (let parsed = url_parse w r in protocol parsed = None \<and> path parsed \<noteq> None)
          else False)"

definition strip_fragment :: "web \<Rightarrow> string \<Rightarrow> string" where
  "strip_fragment w ref = (let parsed = url_parse w ref in url_format w (parsed\<lparr> hash := None \<rparr>))"

definition target_urls :: "web \<Rightarrow> element \<Rightarrow> string list" where
  "target_urls w html =
     map (strip_fragment w) (concat (map (\<lambda>ref. case ref of None \<Rightarrow> [] | Some r \<Rightarrow> [r])
                                     (filter (is_relative w) (candidates html))))"

definition get_extra_resources :: "web \<Rightarrow> nat list \<Rightarrow> Global \<Rightarrow> (error + ResourceRef list) \<times> string list" where
  "get_extra_resources w settle_order global =
     (let relative_urls = uniq (target_urls w (html_element global));
          absolute_urls = map (\<lambda>ref. url_resolve w (document_url global) ref) relative_urls;
          lookups = map (fetch_type w) absolute_urls;
          requests = concat (map snd lookups)
      in case Promise_all settle_order (map fst lookups) of
           Inl err \<Rightarrow> (Inl err, requests)
         | Inr media_types \<Rightarrow>
             (Inr (map (\<lambda>(r, m, a).
                         \<lparr> relative_url = r, media_type = m, absolute_url = Some a,
                           text_content = None, id' = None, properties = None \<rparr>)
                      (zip relative_urls (zip media_types absolute_urls))),
              requests))"

section \<open>css: the stylesheet, logo and watermark of a specification status\<close>

text \<open>
  A template literal of the source, given by its lines: every line ends with a line feed.
\<close>

definition text_of_lines :: "string list \<Rightarrow> string" where
  "text_of_lines ls = concat (map (\<lambda>l. l @ [CHR 0x0A]) ls)"

definition extra_css :: string where
  "extra_css =
     text_of_lines
     [[],
      ''body {'',
      ''    padding: 0 0 0 0 !important;'',
      ''}'',
      [],
      ''h2 {'',
      ''    page-break-before: always;'',
      ''    page-break-inside: avoid;'',
      ''    page-break-after: avoid;'',
      ''}'',
      [],
      ''div.head h2 {'',
      ''    page-break-before: auto;'',
      ''    page-break-inside: avoid;'',
      ''    page-break-after: avoid;'',
      ''}'',
      [],
      ''figure {'',
      ''    page-break-inside: avoid;'',
      ''}'',
      [],
      ''h3, h4, h5 {'',
      ''    page-break-after: avoid;'',
      ''}'',
      [],
      ''dl dt {'',
      ''    page-break-after: avoid;'',
      ''}'',
      [],
      ''dl dd {'',
      ''    page-break-before: avoid;'',
      ''}'',
      [],
      ''div.example, div.note, pre.idl, .warning, table.parameters, table.exceptions {'',
      ''    page-break-inside: avoid;'',
      ''}'',
      [],
      ''p {'',
      ''    orphans: 4;'',
      ''    widows: 2;'',
      ''}'',
      [],
      ''#toc-nav, #toc-toggle-inline {'',
      ''    display:none;'',
      ''}'',
      [],
      ''#back-to-top, .toc-toggle {'',
      ''    display: none;'',
      ''}'',
      [],
      ''.figure, figure {'',
      ''    margin-left: auto;'',
      ''    margin-right: auto;'',
      ''}'',
      [],
      ''nav#toc {'',
      ''    display: none'',
      ''}'']"

definition background_template :: string where
  "background_template =
     text_of_lines
     [[],
      ''body {'',
      ''    background-image: url(logos/%%%LOGO%%%);'',
      ''}'']
     @ extra_css @ text_of_lines [[]]"

definition undefined_template :: string where
  "undefined_template =
     text_of_lines
     [[],
      ''body {'',
      ''    background-image: url(logos/%%%LOGO%%%);'',
      ''    background-color: transparent;'',
      ''}'',
      [],
      ''html {'',
      ''    background: white url(logos/UD-watermark.png);'',
      ''}'']
     @ extra_css @ text_of_lines [[]]"

definition bg_template :: string where
  "bg_template =
     text_of_lines
     [[],
      ''@media screen and (min-width: 28em) {'',
      ''    body {'',
      ''        background-image: url('logos/%%%LOGO%%%');'',
      ''        background-size: auto !important;'',
      ''        padding-left: 150px;'',
      ''    }'',
      ''}'',
      [],
      ''@media screen and (min-width: 78em) {'',
      ''    body:not(.toc-inline) #toc {'',
      ''        padding-top: 150px;'',
      ''        background-attachment: local !important;'',
      ''    };'',
      ''}'',
      [],
      ''@media screen {'',
      ''    body.toc-sidebar #toc {'',
      ''        padding-top: 150px;'',
      ''        background-attachment: local !important;'',
      ''    };'',
      ''}'']
     @ extra_css @ text_of_lines [[]]"

definition cg_draft_template :: string where
  "cg_draft_template =
     text_of_lines
     [[],
      ''body {'',
      ''    background-image: url('logos/%%%LOGO%%%');'',
      ''    background-size: auto !important;'',
      ''}'',
      ''@media screen and (min-width: 28em) {'',
      ''    body {'',
      ''        padding-left: 160px;'',
      ''    }'',
      ''}'',
      [],
      ''@media screen and (min-width: 78em) {'',
      ''    body:not(.toc-inline) #toc {'',
      ''        padding-top: 160px;'',
      ''        background-attachment: local !important;'',
      ''    };'',
      ''}'',
      [],
      ''@media screen {'',
      ''    body.toc-sidebar #toc {'',
      ''        padding-top: 160px;'',
      ''        background-attachment: local !important;'',
      ''    };'',
      ''}'',
      [],
      ''body {'',
      ''    background-color: transparent;'',
      ''}'',
      [],
      ''html {'',
      ''    background: white url(logos/UD-watermark.png);'',
      ''    background-repeat: repeat-x;'',
      ''}'']
     @ extra_css @ text_of_lines [[]]"

definition cg_final_template :: string where
  "cg_final_template =
     text_of_lines
     [[],
      ''body {'',
      ''    background-image: url('logos/%%%LOGO%%%');'',
      ''    background-size: auto !important;'',
      ''}'',
      [],
      ''@media screen and (min-width: 28em) {'',
      ''    body {'',
      ''        padding-left: 160px;'',
      ''    }'',
      ''}'',
      [],
      ''@media screen and (min-width: 78em) {'',
      ''    body:not(.toc-inline) #toc {'',
      ''        padding-top: 160px;'',
      ''        background-attachment: local !important;'',
      ''    };'',
      ''}'',
      [],
      ''@media screen {'',
      ''    body.toc-sidebar #toc {'',
      ''        padding-top: 160px;'',
      ''        background-attachment: local !important;'',
      ''    };'',
      ''}'']
     @ extra_css @ text_of_lines [[]]"

definition specStatus_simple :: "string list" where
  "specStatus_simple =
     [''ED'', ''WD'', ''CR'', ''PR'', ''PER'', ''REC'', ''RSCND'', ''OBSL'', ''SPSD'']"

record specStatus_css_mappings =
  watermark :: bool
  logo_name :: string
  logo_media_type :: "string option"
  special_template :: "string option"

text \<open>The object \<^verbatim>\<open>specStatus_css\<close>, as the list of its keys and values.\<close>

definition specStatus_css :: "(string \<times> specStatus_css_mappings) list" where
  "specStatus_css =
     [(''UNOFFICIAL'',
         \<lparr> watermark = True, logo_name = ''UD.png'',
           logo_media_type = Some ''image/png'', special_template = Some undefined_template \<rparr>),
      (''FPWD'',
         \<lparr> watermark = False, logo_name = ''WD.svg'',
           logo_media_type = None, special_template = None \<rparr>),
      (''LC'',
         \<lparr> watermark = False, logo_name = ''WD.svg'',
           logo_media_type = None, special_template = None \<rparr>),
      (''FPWD-NOTE'',
         \<lparr> watermark = False, logo_name = ''WG-Note.svg'',
           logo_media_type = None, special_template = None \<rparr>),
      (''WG-NOTE'',
         \<lparr> watermark = False, logo_name = ''WG-Note.svg'',
           logo_media_type = None, special_template = None \<rparr>),
      (''BG-DRAFT'',
         \<lparr> watermark = False, logo_name = ''back-bg-draft.png'',
           logo_media_type = Some ''image/png'', special_template = Some bg_template \<rparr>),
      (''BG-FINAL'',
         \<lparr> watermark = False, logo_name = ''back-bg-final.png'',
           logo_media_type = Some ''image/png'', special_template = Some bg_template \<rparr>),
      (''CG-DRAFT'',
         \<lparr> watermark = True, logo_name = ''back-cg-draft.png'',
           logo_media_type = Some ''image/png'', special_template = Some cg_draft_template \<rparr>),
      (''CG-FINAL'',
         \<lparr> watermark = False, logo_name = ''back-cg-final.png'',
           logo_media_type = Some ''image/png'', special_template = Some cg_final_template \<rparr>)]"

text \<open>
  \<^verbatim>\<open>toUpperCase\<close>. On a string of ASCII characters it maps the letters \<^verbatim>\<open>a\<close> to
  \<^verbatim>\<open>z\<close> to upper case and keeps every other character. On a string that holds a
  character outside ASCII (a character with the top bit set) JavaScript also maps
  letters outside ASCII, some of them onto letters of ASCII (the ligature U+FB01 becomes
  \<^verbatim>\<open>FI\<close>, the dotless i U+0131 becomes \<^verbatim>\<open>I\<close>): there the result is the one of the
  built-in, a parameter of the model.
\<close>

definition toUpperCase :: "web \<Rightarrow> string \<Rightarrow> string" where
  "toUpperCase w s =
     (if list_all (\<lambda>c. \<not> digit7 c) s then ascii_upper s else builtin_toUpperCase w s)"

text \<open>
  \<^verbatim>\<open>String.prototype.replace\<close> with a string pattern: the first occurrence is replaced.
  (A \<^verbatim>\<open>$\<close> in the replacement has a special meaning in JavaScript; no logo name
  holds one.)
\<close>

fun replace :: "string \<Rightarrow> string \<Rightarrow> string \<Rightarrow> string" where
  "replace [] pat rep = (if pat = [] then rep else [])"
| "replace (c # cs) pat rep =
     (if prefix pat (c # cs) then rep @ drop (length pat) (c # cs)
      else c # replace cs pat rep)"

text \<open>A string that is \<^verbatim>\<open>undefined\<close> or empty is falsy: \<^verbatim>\<open>a || b\<close>.\<close>

definition or_else :: "string option \<Rightarrow> string \<Rightarrow> string" where
  "or_else a b = (case a of None \<Rightarrow> b | Some s \<Rightarrow> if s = [] then b else s)"

text \<open>The stylesheet link owned by W3C: the first one whose \<^verbatim>\<open>href\<close> has the host of W3C.\<close>

definition css_link_element :: "web \<Rightarrow> Global \<Rightarrow> (nat list \<times> element) option" where
  "css_link_element w global =
     List.find
       (\<lambda>pe. if hasAttribute (snd pe) ''href''
             then (case getAttribute (snd pe) ''href'' of
                     None \<Rightarrow> False
                   | Some h \<Rightarrow> host (url_parse w h) = Some ''www.w3.org'')
             else False)
       (querySelectorAll (html_element global) (ByTagAttr ''link'' ''rel'' ''stylesheet''))"

text \<open>
  The mapping entry of a status: the entry of the table under the status in upper case,
  else, for a status of the simple list, the entry made from the status itself.
\<close>

definition css_extras_of :: "web \<Rightarrow> string \<Rightarrow> specStatus_css_mappings option" where
  "css_extras_of w st =
     (let css_extras = map_of specStatus_css (toUpperCase w st) in
      if css_extras = None \<and> st \<in> set specStatus_simple
      then Some \<lparr> watermark = False, logo_name = st @ ''.svg'',
                  logo_media_type = None, special_template = None \<rparr>
      else css_extras)"

text \<open>
  \<^verbatim>\<open>extract\<close> of the css module (\<open>css_extract\<close> here): the resources to add, and the
  data of the run with the document as the function leaves it. \<^verbatim>\<open>toUpperCase\<close> of a
  status that is not a string raises.
\<close>

definition css_extract :: "web \<Rightarrow> Global \<Rightarrow> error + ResourceRef list \<times> Global" where
  "css_extract w global =
     (case css_link_element w global of
        None \<Rightarrow> Inr ([], global)
      | Some (p, the_link) \<Rightarrow>
          (let retval0 =
                 [\<lparr> relative_url = ''StyleSheets/TR/2016/base.css'',
                    media_type = Some ''text/css'',
                    absolute_url = Some ''https://www.w3.org/StyleSheets/TR/2016/base.css'',
                    text_content = None, id' = None, properties = None \<rparr>];
               html1 = update_at p (setAttribute ''href'' ''StyleSheets/TR/2016/base.css'')
                         (html_element global)
           in case specStatus (config global) of
                None \<Rightarrow> Inl TypeError
              | Some st \<Rightarrow>
                  (case css_extras_of w st of
                     None \<Rightarrow> Inr (retval0, global\<lparr> html_element := html1 \<rparr>)
                   | Some css_extras \<Rightarrow>
                       (let template0 = or_else (special_template css_extras) background_template;
                            template = replace template0 ''%%%LOGO%%%'' (logo_name css_extras);
                            retval1 = retval0 @
                              [\<lparr> relative_url = ''StyleSheets/TR/2016/logos/'' @ logo_name css_extras,
                                 media_type = Some (or_else (logo_media_type css_extras) ''image/svg''),
                                 absolute_url = Some (''https://www.w3.org/StyleSheets/TR/2016/logos/''
                                                      @ logo_name css_extras),
                                 text_content = None, id' = None, properties = None \<rparr>];
                            retval2 =
                              (if watermark css_extras
                               then retval1 @
                                 [\<lparr> relative_url = ''StyleSheets/TR/2016/logos/UD-watermark.png'',
                                    media_type = Some ''image/png'',
                                    absolute_url =
                                      Some ''https://www.w3.org/StyleSheets/TR/2016/logos/$UD-watermark.png'',
                                    text_content = None, id' = None, properties = None \<rparr>]
                               else retval1);
                            retval3 = retval2 @
                              [\<lparr> relative_url = ''StyleSheets/TR/2016/epub.css'',
                                 media_type = Some ''text/css'',
                                 absolute_url = None,
                                 text_content = Some template, id' = None, properties = None \<rparr>];
                            new_css_link =
                              Element ''link''
                                [(''href'', ''StyleSheets/TR/2016/epub.css''), (''rel'', ''stylesheet'')]
                                [] [];
                            html2 = update_at (butlast p) (append_child new_css_link) html1
                        in Inr (retval3, global\<lparr> html_element := html2 \<rparr>)))))"

section \<open>process: the steps of a run\<close>

text \<open>Step 4: the reference to the W3C logo.\<close>

definition add_W3C_logo :: "Global \<Rightarrow> Global" where
  "add_W3C_logo global =
     (case querySelector (html_element global) (ByTagAttr ''img'' ''alt'' ''W3C'') of
        None \<Rightarrow> global
      | Some (p, logo_element) \<Rightarrow>
          global\<lparr> html_element :=
                    update_at p (setAttribute ''src'' ''StyleSheets/TR/2016/logos/W3C.svg'')
                      (html_element global),
                  resources := resources global @
                    [\<lparr> relative_url = ''StyleSheets/TR/2016/logos/W3C.svg'',
                       media_type = Some ''image/svg+xml'',
                       absolute_url = Some ''https://www.w3.org/StyleSheets/TR/2016/logos/W3C'',
                       text_content = None, id' = None, properties = None \<rparr>] \<rparr>)"

text \<open>
  Step 8: a manifest item for every resource with a (non-empty) relative URL; the
  counter \<^verbatim>\<open>res_id_num\<close> names the items that bring no id of their own.
\<close>

fun add_manifest_items :: "nat \<Rightarrow> ResourceRef list \<Rightarrow> PackageWrapper \<Rightarrow> PackageWrapper" where
  "add_manifest_items res_id_num [] pw = pw"
| "add_manifest_items res_id_num (resource # rs) pw =
     (if relative_url resource \<noteq> [] then
        add_manifest_items (Suc res_id_num) rs
          (add_manifest_item
             \<lparr> item_href = relative_url resource,
               item_media_type = media_type resource,
               item_id = or_else (id' resource) (''res_id'' @ string_of_nat res_id_num),
               item_properties = properties resource \<rparr>
             pw)
      else add_manifest_items res_id_num rs pw)"

definition finalize_package :: "Global \<Rightarrow> Global" where
  "finalize_package global =
     global\<lparr> package := add_manifest_items 1 (resources global) (package global) \<rparr>"

text \<open>
  Step 9, \<^verbatim>\<open>generate_epub\<close>: the package, the document, the text resources, then the
  resources to fetch, awaited together; the book is finalized only when all have come.
\<close>

definition truthy :: "string option \<Rightarrow> bool" where
  "truthy v = (case v of None \<Rightarrow> False | Some s \<Rightarrow> s \<noteq> [])"

definition append_text_resource :: "OCF \<Rightarrow> ResourceRef \<Rightarrow> OCF" where
  "append_text_resource b resource =
     (case text_content resource of
        None \<Rightarrow> b
      | Some t \<Rightarrow> ocf_append (Text t) (relative_url resource) b)"

definition generate_epub ::
    "web \<Rightarrow> collaborators \<Rightarrow> nat list \<Rightarrow> Global \<Rightarrow> string \<Rightarrow> (error + Global \<times> OCF) \<times> string list" where
  "generate_epub w c settle_order global epub_file_name =
     (let the_book0 = new_OCF epub_file_name;
          (xml, pw) = serialize (xml_convert c) (package global);
          global1 = global\<lparr> package := pw \<rparr>;
          the_book1 = ocf_append (Text xml) ''package.opf'' the_book0;
          the_book2 = ocf_append (Text (convert_dom c (html_element global1))) ''Overview.xhtml'' the_book1;
          the_book3 = foldl append_text_resource the_book2
                        (filter (\<lambda>resource. truthy (text_content resource)) (resources global1));
          to_be_fetched = filter (\<lambda>resource. truthy (absolute_url resource)) (resources global1);
          file_names = map relative_url to_be_fetched;
          urls = List.map_filter absolute_url to_be_fetched;
          fetches = map (\<lambda>url. fetch_resource w url False) urls;
          requests = concat (map snd fetches)
      in case Promise_all settle_order (map fst fetches) of
           Inl err \<Rightarrow> (Inl err, requests)
         | Inr contents \<Rightarrow>
             (Inr (global1,
                   ocf_finalize (foldl (\<lambda>b arg. ocf_append (fst arg) (snd arg) b) the_book3
                                   (zip contents file_names))),
              requests))"

text \<open>
  \<^verbatim>\<open>process\<close>, in the order of its numbered steps. Steps 1 and 2 gather the data
  of the run: the document, its configuration and the package with the metadata.
\<close>

definition gather_global :: "web \<Rightarrow> collaborators \<Rightarrow> string \<Rightarrow> (error + Global) \<times> string list" where
  "gather_global w c url =
     (case fetch_html w c url of
        (Inl err, reqs) \<Rightarrow> (Inl err, reqs)
      | (Inr html, reqs) \<Rightarrow>
          (case querySelector html (ByTagId ''script'' ''initialUserConfig'') of
             None \<Rightarrow> (Inl User_config_not_available, reqs)
           | Some (p0, initial_config_element) \<Rightarrow>
               (case JSON_parse c (textContent initial_config_element) of
                  Inl err \<Rightarrow> (Inl err, reqs)
                | Inr cfg \<Rightarrow>
                    (case querySelector html (ByTag ''title'') of
                       None \<Rightarrow> (Inl TypeError, reqs)
                     | Some (p1, title_element) \<Rightarrow>
                         (case editors cfg of
                            None \<Rightarrow> (Inl TypeError, reqs)
                          | Some eds \<Rightarrow>
                              (case querySelector html (ByTagClass ''time'' ''dt-published'') of
                                 None \<Rightarrow> (Inl TypeError, reqs)
                               | Some (p2, date) \<Rightarrow>
                                   (let title = textContent title_element;
                                        identifier = ''https://www.w3.org/TR/''
                                                     @ or_undefined (shortName cfg) @ ''/'';
                                        pw0 = new_PackageWrapper identifier title;
                                        pw1 = add_creators
                                                (map (\<lambda>entry. or_undefined (editor_name entry) @ '', ''
                                                                @ or_undefined (company entry)) eds)
                                                pw0;
                                        pw2 = add_dates (getAttribute date ''datetime'') pw1
                                    in (Inr \<lparr> document_url = url, html_element = html,
                                              config = cfg, package = pw2, resources = [] \<rparr>,
                                        reqs))))))))"

text \<open>
  Steps 4 to 8, on the data of the run once the collected resources are stored in it: the
  W3C logo, the CSS and logo files, the cover, the navigation file, the manifest.
\<close>

definition assemble_resources :: "web \<Rightarrow> collaborators \<Rightarrow> Global \<Rightarrow> error + Global" where
  "assemble_resources w c global3 =
     (let global4 = add_W3C_logo global3
      in case css_extract w global4 of
           Inl err \<Rightarrow> Inl err
         | Inr (css_resources, global4') \<Rightarrow>
             (let global5 = global4'\<lparr> resources := resources global4' @ css_resources \<rparr>;
                  global6 = global5\<lparr> resources := create_cover_page c global5 @ resources global5 \<rparr>;
                  global7 = global6\<lparr> resources := create_nav_file c global6 @ resources global6 \<rparr>
              in Inr (finalize_package global7)))"

text \<open>
  The whole of \<^verbatim>\<open>process\<close>. \<open>settle_collect\<close> and \<open>settle_fetch\<close> are the orders in
  which the media type lookups and the resource fetches settle. The result is the
  promise's outcome: an error, or the data of the run and the finalized book; with it,
  the requests handed to the network.
\<close>

definition process ::
    "web \<Rightarrow> collaborators \<Rightarrow> nat list \<Rightarrow> nat list \<Rightarrow> string \<Rightarrow> (error + Global \<times> OCF) \<times> string list" where
  "process w c settle_collect settle_fetch url =
     (case gather_global w c url of
        (Inl err, reqs0) \<Rightarrow> (Inl err, reqs0)
      | (Inr global0, reqs0) \<Rightarrow>
          (case get_extra_resources w settle_collect global0 of
             (Inl err, reqs1) \<Rightarrow> (Inl err, reqs0 @ reqs1)
           | (Inr collected, reqs1) \<Rightarrow>
               (case assemble_resources w c (global0\<lparr> resources := collected \<rparr>) of
                  Inl err \<Rightarrow> (Inl err, reqs0 @ reqs1)
                | Inr global8 \<Rightarrow>
                    (case generate_epub w c settle_fetch global8
                            (or_undefined (shortName (config global8)) @ ''.epub'') of
                       (r, reqs2) \<Rightarrow> (r, reqs0 @ reqs1 @ reqs2)))))"

section \<open>clib/convert: the data of a collection\<close>

text \<open>
  Modelled from the spec: the class \<^verbatim>\<open>Chapter\<close> is not among the sources. A chapter, once
  initialized, carries its editors and its date (a string); \<open>initialize\<close>, a parameter of
  \<open>generate_book_data\<close>, is \<^verbatim>\<open>new Chapter(chapter_data, first).initialize()\<close> as it
  settles.
\<close>

record ChapterConfiguration =
  chapter_url :: string
  respec :: bool

record CollectionConfiguration =
  conf_title :: string
  conf_name :: string
  conf_chapters :: "ChapterConfiguration list"

record Chapter =
  chapter_editors :: "string list"
  chapter_date :: string
  first_chapter :: bool

record Book =
  book_title :: string
  book_name :: string
  book_editors :: "string list"
  book_date :: string
  book_ocf :: OCF
  book_chapters :: "Chapter list"

text \<open>
  \<^verbatim>\<open>dates.reduce(f)\<close> with no initial value: a \<^verbatim>\<open>TypeError\<close> on the empty array.
  \<^verbatim>\<open>accumulator > currentValue\<close> compares two strings by their code units, which is
  the lexicographic order of \<open>string\<close>.
\<close>

definition later_date :: "string \<Rightarrow> string \<Rightarrow> string" where
  "later_date accumulator currentValue =
     (if accumulator > currentValue then accumulator else currentValue)"

definition reduce_dates :: "string list \<Rightarrow> error + string" where
  "reduce_dates dates =
     (case dates of [] \<Rightarrow> Inl TypeError | d # ds \<Rightarrow> Inr (foldl later_date d ds))"

definition generate_book_data ::
    "(ChapterConfiguration \<Rightarrow> bool \<Rightarrow> error + Chapter) \<Rightarrow> nat list \<Rightarrow> CollectionConfiguration
       \<Rightarrow> error + Book" where
  "generate_book_data initialize settle_order book_data =
     (let promises = map (\<lambda>(index, chapter_data). initialize chapter_data (index = 0))
                       (enumerate 0 (conf_chapters book_data))
      in case Promise_all settle_order promises of
           Inl err \<Rightarrow> Inl err
         | Inr chapters \<Rightarrow>
             (let eds = concat (map chapter_editors chapters);
                  dates = map chapter_date chapters
              in case reduce_dates dates of
                   Inl err \<Rightarrow> Inl err
                 | Inr date \<Rightarrow>
                     Inr \<lparr> book_title = conf_title book_data,
                           book_name = conf_name book_data,
                           book_editors = uniq eds,
                           book_date = date,
                           book_ocf = new_OCF (conf_name book_data @ ''.epub''),
                           book_chapters = chapters \<rparr>))"

section \<open>An instance of the libraries and a document, for the examples\<close>

text \<open>
  A small URL library for the concrete runs below. On the URLs of the examples (a scheme,
  two slashes, a host with or without a port, a path, a fragment; or a relative path with
  or without a fragment) it yields what the legacy parser of Node yields: the scheme is
  what stands before the first colon when no slash comes earlier; \<open>example_resolve\<close>
  resolves a plain relative path against the directory of the base URL. The validity check
  of the examples refuses an address with a space, as \<^verbatim>\<open>valid-url\<close> does, whatever
  the parser makes of it. The network serves a table of responses and fails on any other
  URL. The statuses of the examples are strings of ASCII, for which the built-in
  \<^verbatim>\<open>toUpperCase\<close> is never consulted.
\<close>

definition example_parse :: "string \<Rightarrow> UrlObject" where
  "example_parse s =
     (let before_hash = takeWhile (\<lambda>c. c \<noteq> CHR ''#'') s;
          fragment = dropWhile (\<lambda>c. c \<noteq> CHR ''#'') s;
          scheme = takeWhile (\<lambda>c. c \<noteq> CHR '':'' \<and> c \<noteq> CHR ''/'') before_hash;
          after_scheme = dropWhile (\<lambda>c. c \<noteq> CHR '':'' \<and> c \<noteq> CHR ''/'') before_hash;
          has_protocol = (scheme \<noteq> [] \<and> take 1 after_scheme = '':'');
          rest = (if has_protocol then drop 1 after_scheme else before_hash);
          has_slashes = (has_protocol \<and> take 2 rest = ''//'');
          authority = (if has_slashes then takeWhile (\<lambda>c. c \<noteq> CHR ''/'') (drop 2 rest) else []);
          pathname = (if has_slashes then dropWhile (\<lambda>c. c \<noteq> CHR ''/'') (drop 2 rest) else rest);
          port_digits = (if CHR '':'' \<in> set authority
                         then rev (takeWhile (\<lambda>c. c \<noteq> CHR '':'') (rev authority)) else [])
      in \<lparr> protocol = (if has_protocol then Some (scheme @ '':'') else None),
           slashes = has_slashes,
           host = (if has_slashes then Some authority else None),
           port = (if port_digits = [] then None else Some port_digits),
           path = (if pathname = [] then (if has_slashes then Some ''/'' else None)
                   else Some pathname),
           hash = (if fragment = [] then None else Some fragment) \<rparr>)"

definition example_format :: "UrlObject \<Rightarrow> string" where
  "example_format u =
     (case protocol u of None \<Rightarrow> [] | Some p \<Rightarrow> p) @ (if slashes u then ''//'' else [])
     @ (case host u of None \<Rightarrow> [] | Some h \<Rightarrow> h) @ (case path u of None \<Rightarrow> [] | Some p \<Rightarrow> p)
     @ (case hash u of None \<Rightarrow> [] | Some h \<Rightarrow> h)"

definition example_resolve :: "string \<Rightarrow> string \<Rightarrow> string" where
  "example_resolve base ref =
     (if protocol (example_parse ref) \<noteq> None then ref
      else rev (dropWhile (\<lambda>c. c \<noteq> CHR ''/'') (rev base)) @ ref)"

definition example_isWebUri :: "string \<Rightarrow> string option" where
  "example_isWebUri a = (if CHR '' '' \<in> set a then None else Some a)"

definition example_web :: "(string \<times> response) list \<Rightarrow> web" where
  "example_web served =
     \<lparr> url_parse = example_parse, url_format = example_format, url_resolve = example_resolve,
       isWebUri = example_isWebUri,
       my_fetch = (\<lambda>u. case map_of served u of None \<Rightarrow> Inl ''FetchError'' | Some r \<Rightarrow> Inr r),
       builtin_toUpperCase = ascii_upper \<rparr>"

definition served :: "string \<Rightarrow> string \<Rightarrow> response" where
  "served t b = \<lparr> ok = True, status = 200, statusText = ''OK'', content_type = Some t, body = b \<rparr>"

text \<open>
  A ReSpec document with a status and some elements in its body: the title, the
  stylesheet of W3C, the configuration script and the publication date are there.
  \<open>example_global\<close> is the data of a run on it after steps 1 and 2.
\<close>

definition example_config :: "string \<Rightarrow> config" where
  "example_config st =
     \<lparr> shortName = Some ''doc'', specStatus = Some st,
       editors = Some [\<lparr> editor_name = Some ''A. Editor'', company = Some ''W3C'' \<rparr>] \<rparr>"

definition example_html :: "element list \<Rightarrow> element" where
  "example_html in_body =
     Element ''html'' [] []
       [Element ''head'' [] []
          [Element ''title'' [] ''A Document'' [],
           Element ''link''
             [(''rel'', ''stylesheet''),
              (''href'', ''https://www.w3.org/StyleSheets/TR/2016/W3C-REC'')] [] [],
           Element ''script'' [(''id'', ''initialUserConfig'')] ''{}'' []],
        Element ''body'' [] []
          (Element ''time'' [(''class'', ''dt-published''), (''datetime'', ''2020-05-26'')]
             ''26 May 2020'' [] # in_body)]"

definition example_global :: "string \<Rightarrow> element list \<Rightarrow> Global" where
  "example_global st in_body =
     \<lparr> document_url = ''https://example.org/TR/doc/Overview.html'',
       html_element = example_html in_body,
       config = example_config st,
       package = add_dates (Some ''2020-05-26'')
                   (add_creators [''A. Editor, W3C'']
                      (new_PackageWrapper ''https://www.w3.org/TR/doc/'' ''A Document'')),
       resources = [] \<rparr>"

definition example_collaborators :: "string \<Rightarrow> element list \<Rightarrow> collaborators" where
  "example_collaborators st in_body =
     \<lparr> JSDOM = (\<lambda>fetched url. Inr (example_html in_body)),
       JSON_parse = (\<lambda>t. Inr (example_config st)),
       xml_convert = (\<lambda>pd. concat (map item_href (manifest pd))),
       create_cover_page = (\<lambda>global.
         [\<lparr> relative_url = ''cover.xhtml'', media_type = Some ''application/xhtml+xml'',
            absolute_url = None, text_content = Some ''<html>cover</html>'',
            id' = Some ''start'', properties = None \<rparr>]),
       create_nav_file = (\<lambda>global.
         [\<lparr> relative_url = ''nav.xhtml'', media_type = Some ''application/xhtml+xml'',
            absolute_url = None, text_content = Some ''<html>nav</html>'',
            id' = Some ''nav'', properties = Some ''nav'' \<rparr>]),
       convert_dom = (\<lambda>e. ''<html>document</html>'') \<rparr>"

text \<open>
  Which paths of a list of elements a selector matches: used to compare a document before
  and after a change.
\<close>

definition marks :: "selector \<Rightarrow> (nat list \<times> element) list \<Rightarrow> (nat list \<times> bool) list" where
  "marks sel pes = map (\<lambda>pe. (fst pe, matches sel (snd pe))) pes"

text \<open>Bodies of documents and tables of served responses for the concrete runs.\<close>

definition figure_body :: "element list" where
  "figure_body =
     [Element ''p'' [] ''text''
        [Element ''img'' [(''src'', ''images/fig.png'')] [] [],
         Element ''a'' [(''href'', ''#abstract'')] ''abstract'' [],
         Element ''a'' [(''href'', ''images/fig.png#top'')] ''figure'' [],
         Element ''a'' [(''href'', ''https://example.org/other'')] ''other'' [],
         Element ''a'' [(''name'', ''anchor'')] [] []],
      Element ''object'' [(''data'', ''data/table.csv'')] [] []]"

definition figure_net :: "(string \<times> response) list" where
  "figure_net =
     [(''https://example.org/TR/doc/images/fig.png'', served ''image/png'' ''PNG''),
      (''https://example.org/TR/doc/data/table.csv'', served ''text/csv'' ''a,b'')]"

definition unofficial_net :: "(string \<times> response) list" where
  "unofficial_net =
     [(''https://example.org/TR/doc/Overview.html'', served ''text/html'' ''<html>...</html>''),
      (''https://www.w3.org/StyleSheets/TR/2016/base.css'', served ''text/css'' ''body {}''),
      (''https://www.w3.org/StyleSheets/TR/2016/logos/UD.png'', served ''image/png'' ''PNG''),
      (''https://www.w3.org/StyleSheets/TR/2016/logos/UD-watermark.png'', served ''image/png'' ''PNG'')]"

definition logo_body :: "element list" where
  "logo_body =
     [Element ''img'' [(''alt'', ''W3C''), (''src'', ''StyleSheets/TR/2016/logos/W3C.svg'')] [] []]"

definition logo_net :: "(string \<times> response) list" where
  "logo_net =
     [(''https://example.org/TR/doc/Overview.html'', served ''text/html'' ''<html>...</html>''),
      (''https://example.org/TR/doc/StyleSheets/TR/2016/logos/W3C.svg'',
         served ''image/svg+xml'' ''<svg/>''),
      (''https://www.w3.org/StyleSheets/TR/2016/logos/W3C'', served ''image/svg+xml'' ''<svg/>''),
      (''https://www.w3.org/StyleSheets/TR/2016/base.css'', served ''text/css'' ''body {}''),
      (''https://www.w3.org/StyleSheets/TR/2016/logos/REC.svg'', served ''image/svg+xml'' ''<svg/>'')]"

definition full_net :: "(string \<times> response) list" where
  "full_net =
     [(''https://example.org/TR/doc/Overview.html'', served ''text/html'' ''<html>...</html>''),
      (''https://example.org/TR/doc/images/fig.png'', served ''image/png'' ''PNG''),
      (''https://example.org/TR/doc/data/table.csv'', served ''text/csv'' ''a,b''),
      (''https://www.w3.org/StyleSheets/TR/2016/base.css'', served ''text/css'' ''body {}''),
      (''https://www.w3.org/StyleSheets/TR/2016/logos/REC.svg'', served ''image/svg+xml'' ''<svg/>'')]"



text \<open>The URLs \<^verbatim>\<open>generate_epub\<close> fetches for a list of resources.\<close>

definition urls_to_fetch :: "ResourceRef list \<Rightarrow> string list" where
  "urls_to_fetch rs =
     List.map_filter absolute_url (filter (\<lambda>resource. truthy (absolute_url resource)) rs)"

text \<open>Chapters for a collection of two documents.\<close>

definition example_initialize :: "ChapterConfiguration \<Rightarrow> bool \<Rightarrow> error + Chapter" where
  "example_initialize chapter_data first =
     (if chapter_url chapter_data = ''https://example.org/TR/one/''
      then Inr \<lparr> chapter_editors = [''A. Editor, W3C''], chapter_date = ''2021-01-01'',
                 first_chapter = first \<rparr>
      else if chapter_url chapter_data = ''https://example.org/TR/two/''
      then Inr \<lparr> chapter_editors = [''A. Editor, W3C'', ''B. Editor, W3C''],
                 chapter_date = ''2021-06-01'', first_chapter = first \<rparr>
      else Inl (Problem_accessing (chapter_url chapter_data) ''FetchError''))"

definition example_collection :: CollectionConfiguration where
  "example_collection =
     \<lparr> conf_title = ''Two Documents'', conf_name = ''two'',
       conf_chapters = [\<lparr> chapter_url = ''https://example.org/TR/one/'', respec = False \<rparr>,
                        \<lparr> chapter_url = ''https://example.org/TR/two/'', respec = False \<rparr>] \<rparr>"

section \<open>Properties of the fetch module\<close>

text \<open>
  C9. An address whose parsed scheme is neither \<^verbatim>\<open>http:\<close> nor \<^verbatim>\<open>https:\<close> (or is
  missing), or which the validity check refuses, or whose explicit port number is at most
  1024, makes both \<^verbatim>\<open>fetch_resource\<close> and \<^verbatim>\<open>fetch_type\<close> reject, and no request
  is handed to the network for it.
\<close>

theorem fetch_rejects_unsafe_address:
  assumes "protocol (url_parse w address) \<noteq> Some ''http:''
             \<and> protocol (url_parse w address) \<noteq> Some ''https:''
           \<or> isWebUri w address = None
           \<or> (\<exists>p n. port (url_parse w address) = Some p \<and> Number p = Some n \<and> n \<le> 1024)"
  shows "\<exists>e. fetch_resource w address force_text = (Inl e, [])
             \<and> fetch_type w address = (Inl e, [])"
proof -
  have "\<exists>e. check_Web_url w address = Inl e"
    using assms
    by (auto simp: check_Web_url_def Let_def le_1024_def split: option.splits)
  then show ?thesis
    by (auto simp: fetch_resource_def fetch_type_def)
qed

theorem fetch_rejects_unsafe_address_witness:
  "(\<exists>e. fetch_resource (example_web []) ''ftp://example.org/file'' False = (Inl e, [])
        \<and> fetch_type (example_web []) ''ftp://example.org/file'' = (Inl e, []))
   \<and> (\<exists>e. fetch_resource (example_web []) ''http://exa mple.org/file'' False = (Inl e, [])
        \<and> fetch_type (example_web []) ''http://exa mple.org/file'' = (Inl e, []))
   \<and> (\<exists>e. fetch_resource (example_web []) ''http://localhost:80/TR/doc/'' False = (Inl e, [])
        \<and> fetch_type (example_web []) ''http://localhost:80/TR/doc/'' = (Inl e, []))"
proof -
  have h1: "protocol (url_parse (example_web []) ''ftp://example.org/file'') \<noteq> Some ''http:''
      \<and> protocol (url_parse (example_web []) ''ftp://example.org/file'') \<noteq> Some ''https:''"
    by code_simp
  have h2: "isWebUri (example_web []) ''http://exa mple.org/file'' = None"
    by code_simp
  have "port (url_parse (example_web []) ''http://localhost:80/TR/doc/'') = Some ''80''
      \<and> Number ''80'' = Some 80 \<and> (80::nat) \<le> 1024"
    by code_simp
  then have h3: "\<exists>p n. port (url_parse (example_web []) ''http://localhost:80/TR/doc/'') = Some p
      \<and> Number p = Some n \<and> n \<le> 1024"
    by blast
  show ?thesis
    using fetch_rejects_unsafe_address [of "example_web []" "''ftp://example.org/file''" False]
      fetch_rejects_unsafe_address [of "example_web []" "''http://exa mple.org/file''" False]
      fetch_rejects_unsafe_address [of "example_web []" "''http://localhost:80/TR/doc/''" False]
      h1 h2 h3
    by blast
qed

section \<open>Properties of the document tree\<close>

lemma map_of_set_entry: "map_of (set_entry a v kvs) = (map_of kvs)(a \<mapsto> v)"
  by (induction kvs) (auto simp: fun_eq_iff)

lemma getAttribute_setAttribute:
  "getAttribute (setAttribute a v e) b = (if b = a then Some v else getAttribute e b)"
  by (cases e) (simp add: getAttribute_def map_of_set_entry)

lemma localName_setAttribute [simp]: "localName (setAttribute a v e) = localName e"
  by (cases e) simp

lemma children_setAttribute [simp]: "children (setAttribute a v e) = children e"
  by (cases e) simp

lemma matches_update_at:
  assumes "\<And>e. matches sel (f e) = matches sel e"
  shows "matches sel (update_at p f e) = matches sel e"
proof (cases p)
  case Nil
  then show ?thesis by (simp add: assms)
next
  case (Cons i q)
  then show ?thesis
    by (cases e; cases sel) (simp_all add: getAttribute_def)
qed

lemma marks_simps [simp]:
  "marks sel [] = []"
  "marks sel (pe # pes) = (fst pe, matches sel (snd pe)) # marks sel pes"
  "marks sel (xs @ ys) = marks sel xs @ marks sel ys"
  by (simp_all add: marks_def)

lemma marks_shift:
  "marks sel (map (\<lambda>(p, e). (i # p, e)) pes) = map (\<lambda>(p, b). (i # p, b)) (marks sel pes)"
  by (induction pes) (auto simp: marks_def)

lemma marks_descendants_from_update:
  assumes "i < length cs"
    and "marks sel (descendants c') = marks sel (descendants (cs ! i))"
    and "matches sel c' = matches sel (cs ! i)"
  shows "marks sel (descendants_from k (cs[i := c'])) = marks sel (descendants_from k cs)"
  using assms
proof (induction cs arbitrary: i k)
  case Nil
  then show ?case by simp
next
  case (Cons c cs)
  show ?case
  proof (cases i)
    case 0
    with Cons.prems show ?thesis by (simp add: marks_shift)
  next
    case (Suc j)
    with Cons.prems Cons.IH [of j "Suc k"] show ?thesis by (simp add: marks_shift)
  qed
qed

lemma marks_update_at:
  assumes "\<And>e. matches sel (f e) = matches sel e"
    and "\<And>e. children (f e) = children e"
  shows "marks sel (descendants (update_at p f root)) = marks sel (descendants root)"
proof (induction p arbitrary: root)
  case Nil
  have "descendants (f root) = descendants root"
    using assms(2) [of root] by (cases root; cases "f root") simp
  then show ?case by simp
next
  case (Cons i q)
  obtain t as x cs where root: "root = Element t as x cs" by (cases root)
  show ?case
  proof (cases "i < length cs")
    case True
    have "marks sel (descendants_from 0 (cs[i := update_at q f (cs ! i)]))
          = marks sel (descendants_from 0 cs)"
      using True Cons.IH [of "cs ! i"] matches_update_at [of sel f q "cs ! i", OF assms(1)]
      by (intro marks_descendants_from_update) simp_all
    with True root show ?thesis by simp
  next
    case False
    with root show ?thesis by simp
  qed
qed

lemma querySelectorAll_marks:
  "map fst (querySelectorAll root sel) = map fst (filter snd (marks sel (descendants root)))"
  by (simp add: querySelectorAll_def marks_def filter_map comp_def)

lemma querySelectorAll_update_at:
  assumes "\<And>e. matches sel (f e) = matches sel e"
    and "\<And>e. children (f e) = children e"
  shows "map fst (querySelectorAll (update_at p f root) sel) = map fst (querySelectorAll root sel)"
  by (simp add: querySelectorAll_marks marks_update_at [OF assms])

lemma stylesheet_links_kept:
  "map fst (querySelectorAll (update_at p (setAttribute ''href'' v) root) (ByTagAttr ''link'' ''rel'' ''stylesheet''))
   = map fst (querySelectorAll root (ByTagAttr ''link'' ''rel'' ''stylesheet''))"
  by (rule querySelectorAll_update_at) (simp_all add: getAttribute_setAttribute)

lemma rel_compared_without_case:
  "matches (ByTagAttr ''link'' ''rel'' ''stylesheet'') (Element ''link'' [(''rel'', ''StyleSheet'')] [] [])
   \<and> \<not> matches (ByTagAttr ''img'' ''alt'' ''W3C'') (Element ''img'' [(''alt'', ''w3c'')] [] [])"
  by code_simp

section \<open>Properties of promises and of the duplicate removal\<close>

lemma set_rejections: "set (rejections rs) = {e. Inl e \<in> set rs}"
  by (induction rs rule: rejections.induct) auto

lemma rejections_empty: "\<forall>e. Inl e \<notin> set rs \<Longrightarrow> rejections rs = []"
  by (induction rs rule: rejections.induct) auto

lemma fulfilments_map_Inr: "fulfilments (map Inr vs) = vs"
  by (induction vs) simp_all

lemma all_fulfilled_map: "(\<forall>e. Inl e \<notin> set rs) \<Longrightarrow> rs = map Inr (fulfilments rs)"
proof (induction rs rule: rejections.induct)
  case 1
  then show ?case by simp
next
  case (2 e rs)
  then show ?case by auto
next
  case (3 v rs)
  then show ?case by auto
qed

lemma Promise_all_fulfilled:
  assumes "\<forall>e. Inl e \<notin> set results"
  shows "Promise_all settle_order results = Inr (fulfilments results)"
proof -
  have "set (map (\<lambda>i. results ! i) (filter (\<lambda>i. i < length results) settle_order)) \<subseteq> set results"
    by auto
  with assms have "\<forall>e. Inl e \<notin> set (map (\<lambda>i. results ! i) (filter (\<lambda>i. i < length results) settle_order))"
    by blast
  then have "rejections (map (\<lambda>i. results ! i) (filter (\<lambda>i. i < length results) settle_order)) = []"
    by (rule rejections_empty)
  moreover have "rejections results = []"
    using assms by (rule rejections_empty)
  ultimately show ?thesis
    by (simp add: Promise_all_def)
qed

lemma Promise_all_rejected:
  assumes "Inl e \<in> set results"
  shows "\<exists>e'. Promise_all settle_order results = Inl e' \<and> Inl e' \<in> set results"
proof -
  let ?sel = "map (\<lambda>i. results ! i) (filter (\<lambda>i. i < length results) settle_order)"
  have sub: "set ?sel \<subseteq> set results" by auto
  have "e \<in> set (rejections results)"
    using assms by (simp add: set_rejections)
  then obtain e' es where split: "rejections ?sel @ rejections results = e' # es"
    by (cases "rejections ?sel @ rejections results") auto
  then have "e' \<in> set (rejections ?sel) \<union> set (rejections results)"
    by (metis list.set_intros(1) set_append)
  then have "Inl e' \<in> set results"
    using sub by (auto simp: set_rejections)
  moreover have "Promise_all settle_order results = Inl e'"
    using split by (simp add: Promise_all_def)
  ultimately show ?thesis by blast
qed

lemma Promise_all_Inr_iff:
  "Promise_all settle_order results = Inr vs \<longleftrightarrow> results = map Inr vs"
proof
  assume a: "Promise_all settle_order results = Inr vs"
  have none: "\<forall>e. Inl e \<notin> set results"
  proof (rule ccontr)
    assume "\<not> (\<forall>e. Inl e \<notin> set results)"
    then obtain e where "Inl e \<in> set results" by blast
    from Promise_all_rejected [OF this, of settle_order] a show False by auto
  qed
  with a have "vs = fulfilments results"
    by (simp add: Promise_all_fulfilled)
  with none show "results = map Inr vs"
    by (simp add: all_fulfilled_map [symmetric])
next
  assume "results = map Inr vs"
  then show "Promise_all settle_order results = Inr vs"
    by (simp add: Promise_all_fulfilled fulfilments_map_Inr image_iff) 
qed

lemma uniq_into_props:
  "distinct result \<Longrightarrow> distinct (uniq_into result xs) \<and> set (uniq_into result xs) = set result \<union> set xs"
  by (induction xs arbitrary: result) auto

lemma distinct_uniq [simp]: "distinct (uniq xs)"
  by (simp add: uniq_def uniq_into_props)

lemma set_uniq [simp]: "set (uniq xs) = set xs"
  by (simp add: uniq_def uniq_into_props)

section \<open>Properties of the resource collection\<close>

lemma capitalised_rel_is_collected:
  "target_urls (example_web [])
     (Element ''html'' [] []
        [Element ''head'' [] []
           [Element ''link'' [(''rel'', ''Stylesheet''), (''href'', ''local.css'')] [] []]])
   = [''local.css'']"
  by code_simp

lemma zip_lookups:
  "zip xs (zip (map f (map h xs)) (map h xs)) = map (\<lambda>x. (x, f (h x), h x)) xs"
  by (induction xs) simp_all

lemma set_somes:
  "set (concat (map (\<lambda>ref. case ref of None \<Rightarrow> [] | Some r \<Rightarrow> [r]) xs)) = {r. Some r \<in> set xs}"
  by (induction xs) (auto split: option.splits)

lemma set_candidates:
  "set (candidates html) =
     {getAttribute (snd pe) attr | pe sel attr.
        (sel, attr) \<in> {(ByTag ''img'', ''src''), (ByTag ''a'', ''href''),
                        (ByTagAttr ''link'' ''rel'' ''stylesheet'', ''href''), (ByTag ''object'', ''data'')}
        \<and> pe \<in> set (querySelectorAll html sel)}"
  unfolding candidates_def resource_references_def
  by (simp only: set_concat set_map list.simps image_insert image_empty prod.case Union_insert Union_empty Un_empty_right) blast

lemma mem_candidates:
  "Some r \<in> set (candidates html) \<longleftrightarrow>
     (\<exists>sel attr pe.
         (sel, attr) \<in> {(ByTag ''img'', ''src''), (ByTag ''a'', ''href''),
                         (ByTagAttr ''link'' ''rel'' ''stylesheet'', ''href''), (ByTag ''object'', ''data'')}
         \<and> pe \<in> set (querySelectorAll html sel)
         \<and> getAttribute (snd pe) attr = Some r)"
  unfolding set_candidates mem_Collect_eq by metis

lemma set_target_urls:
  "set (target_urls w html) =
     {strip_fragment w r | r.
        (\<exists>sel attr pe.
          (sel, attr) \<in> {(ByTag ''img'', ''src''), (ByTag ''a'', ''href''),
                          (ByTagAttr ''link'' ''rel'' ''stylesheet'', ''href''), (ByTag ''object'', ''data'')}
          \<and> pe \<in> set (querySelectorAll html sel)
          \<and> getAttribute (snd pe) attr = Some r)
        \<and> r \<noteq> [] \<and> protocol (url_parse w r) = None \<and> path (url_parse w r) \<noteq> None}"
proof -
  have rel: "is_relative w (Some r) \<longleftrightarrow> r \<noteq> [] \<and> protocol (url_parse w r) = None \<and> path (url_parse w r) \<noteq> None" for r
    by (simp add: is_relative_def Let_def)
  have "set (target_urls w html) = strip_fragment w ` {r. Some r \<in> set (candidates html) \<and> is_relative w (Some r)}"
    unfolding target_urls_def set_map set_somes by simp
  also have "\<dots> = {strip_fragment w r | r. Some r \<in> set (candidates html) \<and> is_relative w (Some r)}"
    by (simp only: image_Collect)
  finally show ?thesis
    by (simp only: mem_candidates rel)
qed

text \<open>
  C2. When every media type lookup succeeds, \<^verbatim>\<open>get_extra_resources\<close> returns one
  ResourceRef per relative path, without repetition and in the order of first occurrence.
  The paths are the values of \<^verbatim>\<open>img/src\<close>, \<^verbatim>\<open>a/href\<close>,
  \<^verbatim>\<open>link[rel="stylesheet"]/href\<close> and \<^verbatim>\<open>object/data\<close> that are not empty, have no
  scheme and have a path (a value that is only a fragment has none), with the fragment
  removed. Each ResourceRef carries the path resolved against the URL of the document and
  the media type looked up for that very URL, and no text content. The list and the
  requests are the same for every order in which the lookups settle.
\<close>

theorem get_extra_resources_collects:
  assumes "\<forall>r \<in> set (target_urls w (html_element g)).
             \<exists>m. fst (fetch_type w (url_resolve w (document_url g) r)) = Inr m"
  shows "\<exists>rs reqs.
           get_extra_resources w settle_order g = (Inr rs, reqs)
         \<and> map relative_url rs = uniq (target_urls w (html_element g))
         \<and> distinct (map relative_url rs)
         \<and> set (map relative_url rs) =
             {strip_fragment w r | r.
                (\<exists>sel attr pe.
                  (sel, attr) \<in> {(ByTag ''img'', ''src''), (ByTag ''a'', ''href''),
                                  (ByTagAttr ''link'' ''rel'' ''stylesheet'', ''href''),
                                  (ByTag ''object'', ''data'')}
                  \<and> pe \<in> set (querySelectorAll (html_element g) sel)
                  \<and> getAttribute (snd pe) attr = Some r)
                \<and> r \<noteq> [] \<and> protocol (url_parse w r) = None \<and> path (url_parse w r) \<noteq> None}
         \<and> (\<forall>res \<in> set rs.
               absolute_url res = Some (url_resolve w (document_url g) (relative_url res))
             \<and> fst (fetch_type w (url_resolve w (document_url g) (relative_url res))) = Inr (media_type res)
             \<and> text_content res = None)
         \<and> (\<forall>other_order. get_extra_resources w other_order g = (Inr rs, reqs))"
proof -
  define rel where "rel = uniq (target_urls w (html_element g))"
  define resolve where "resolve = (\<lambda>ref. url_resolve w (document_url g) ref)"
  define mt where "mt = (\<lambda>a. projr (fst (fetch_type w a)))"
  define rs where "rs = map (\<lambda>r. \<lparr> relative_url = r, media_type = mt (resolve r),
                                     absolute_url = Some (resolve r), text_content = None,
                                     id' = None, properties = None \<rparr>) rel"
  define reqs where "reqs = concat (map snd (map (fetch_type w) (map resolve rel)))"
  have ok: "fst (fetch_type w (resolve r)) = Inr (mt (resolve r))" if "r \<in> set rel" for r
  proof -
    from that assms obtain m where "fst (fetch_type w (resolve r)) = Inr m"
      unfolding rel_def resolve_def by auto
    then show ?thesis by (simp add: mt_def)
  qed
  then have lookups: "map fst (map (fetch_type w) (map resolve rel)) = map Inr (map mt (map resolve rel))"
    by simp
  have pa: "Promise_all so (map fst (map (fetch_type w) (map resolve rel))) = Inr (map mt (map resolve rel))" for so
    by (simp only: lookups Promise_all_Inr_iff)
  have run: "get_extra_resources w so g = (Inr rs, reqs)" for so
    unfolding get_extra_resources_def Let_def rel_def [symmetric] resolve_def [symmetric]
    apply (simp only: pa sum.case zip_lookups)
    apply (simp add: rs_def reqs_def)
    done
  have names: "map relative_url rs = rel"
    by (simp add: rs_def comp_def)
  have each: "\<forall>res \<in> set rs.
               absolute_url res = Some (url_resolve w (document_url g) (relative_url res))
             \<and> fst (fetch_type w (url_resolve w (document_url g) (relative_url res))) = Inr (media_type res)
             \<and> text_content res = None"
    using ok by (auto simp: rs_def resolve_def)
  have "distinct rel" "set rel = set (target_urls w (html_element g))"
    by (simp_all add: rel_def)
  show ?thesis
    apply (rule exI [of _ rs])
    apply (rule exI [of _ reqs])
    apply (simp only: run names \<open>distinct rel\<close> \<open>set rel = set (target_urls w (html_element g))\<close> set_target_urls)
    using each apply (simp add: rel_def)
    done
qed

theorem get_extra_resources_collects_witness:
  "get_extra_resources (example_web figure_net) [1, 0] (example_global ''REC'' figure_body)
     = (Inr [\<lparr> relative_url = ''images/fig.png'', media_type = Some ''image/png'',
                absolute_url = Some ''https://example.org/TR/doc/images/fig.png'',
                text_content = None, id' = None, properties = None \<rparr>,
             \<lparr> relative_url = ''data/table.csv'', media_type = Some ''text/csv'',
                absolute_url = Some ''https://example.org/TR/doc/data/table.csv'',
                text_content = None, id' = None, properties = None \<rparr>],
        [''https://example.org/TR/doc/images/fig.png'', ''https://example.org/TR/doc/data/table.csv''])
   \<and> (\<exists>rs reqs.
         get_extra_resources (example_web figure_net) [1, 0] (example_global ''REC'' figure_body) = (Inr rs, reqs)
       \<and> distinct (map relative_url rs)
       \<and> (\<forall>other_order. get_extra_resources (example_web figure_net) other_order
                            (example_global ''REC'' figure_body) = (Inr rs, reqs)))"
proof -
  have t: "target_urls (example_web figure_net) (html_element (example_global ''REC'' figure_body))
             = [''images/fig.png'', ''images/fig.png'', ''data/table.csv'']"
    by code_simp
  have f1: "fst (fetch_type (example_web figure_net)
                   (url_resolve (example_web figure_net)
                      (document_url (example_global ''REC'' figure_body)) ''images/fig.png''))
              = Inr (Some ''image/png'')"
    by code_simp
  have f2: "fst (fetch_type (example_web figure_net)
                   (url_resolve (example_web figure_net)
                      (document_url (example_global ''REC'' figure_body)) ''data/table.csv''))
              = Inr (Some ''text/csv'')"
    by code_simp
  have h: "\<forall>r \<in> set (target_urls (example_web figure_net) (html_element (example_global ''REC'' figure_body))).
             \<exists>m. fst (fetch_type (example_web figure_net)
                         (url_resolve (example_web figure_net)
                            (document_url (example_global ''REC'' figure_body)) r)) = Inr m"
    unfolding t using f1 f2 by simp
  have run: "get_extra_resources (example_web figure_net) [1, 0] (example_global ''REC'' figure_body)
     = (Inr [\<lparr> relative_url = ''images/fig.png'', media_type = Some ''image/png'',
                absolute_url = Some ''https://example.org/TR/doc/images/fig.png'',
                text_content = None, id' = None, properties = None \<rparr>,
             \<lparr> relative_url = ''data/table.csv'', media_type = Some ''text/csv'',
                absolute_url = Some ''https://example.org/TR/doc/data/table.csv'',
                text_content = None, id' = None, properties = None \<rparr>],
        [''https://example.org/TR/doc/images/fig.png'', ''https://example.org/TR/doc/data/table.csv''])"
    by code_simp
  from get_extra_resources_collects [OF h, of "[1, 0]"] obtain rs reqs
    where r1: "get_extra_resources (example_web figure_net) [1, 0] (example_global ''REC'' figure_body) = (Inr rs, reqs)"
      and r2: "distinct (map relative_url rs)"
      and r3: "\<forall>other_order. get_extra_resources (example_web figure_net) other_order
                            (example_global ''REC'' figure_body) = (Inr rs, reqs)"
    by (elim exE conjE) (rule that)
  from run r1 r2 r3 show ?thesis
    by (intro conjI exI [of _ rs] exI [of _ reqs])
qed

section \<open>Properties of the css module\<close>

lemma css_extras_of_None:
  "css_extras_of w st = None \<longleftrightarrow>
     map_of specStatus_css (toUpperCase w st) = None \<and> st \<notin> set specStatus_simple"
  by (auto simp: css_extras_of_def Let_def)

text \<open>
  C4. With a stylesheet link of W3C in the document (whatever the letter case of its
  \<^verbatim>\<open>rel\<close>) and a status that is neither a key of the table (in upper case, as the
  runtime computes it for every string) nor in the simple list, \<^verbatim>\<open>extract\<close> does
  not raise: it returns the base stylesheet alone, and the only change of the document
  is the \<^verbatim>\<open>href\<close> of that link; the stylesheet links of the document are at the
  same places as before.
\<close>

theorem unknown_status_base_only:
  assumes "css_link_element w g = Some (p, the_link)"
    and "specStatus (config g) = Some st"
    and "map_of specStatus_css (toUpperCase w st) = None"
    and "st \<notin> set specStatus_simple"
  shows "css_extract w g =
           Inr ([\<lparr> relative_url = ''StyleSheets/TR/2016/base.css'',
                    media_type = Some ''text/css'',
                    absolute_url = Some ''https://www.w3.org/StyleSheets/TR/2016/base.css'',
                    text_content = None, id' = None, properties = None \<rparr>],
                g\<lparr> html_element :=
                     update_at p (setAttribute ''href'' ''StyleSheets/TR/2016/base.css'') (html_element g) \<rparr>)
         \<and> map fst (querySelectorAll
                      (update_at p (setAttribute ''href'' ''StyleSheets/TR/2016/base.css'') (html_element g))
                      (ByTagAttr ''link'' ''rel'' ''stylesheet''))
             = map fst (querySelectorAll (html_element g) (ByTagAttr ''link'' ''rel'' ''stylesheet''))"
proof -
  have "css_extras_of w st = None"
    using assms(3,4) by (simp add: css_extras_of_None)
  then show ?thesis
    using assms(1,2) by (simp add: css_extract_def stylesheet_links_kept)
qed

theorem unknown_status_base_only_witness:
  "css_extract (example_web []) (example_global ''finding'' []) =
           Inr ([\<lparr> relative_url = ''StyleSheets/TR/2016/base.css'',
                    media_type = Some ''text/css'',
                    absolute_url = Some ''https://www.w3.org/StyleSheets/TR/2016/base.css'',
                    text_content = None, id' = None, properties = None \<rparr>],
                (example_global ''finding'' [])\<lparr> html_element :=
                     update_at [0, 1] (setAttribute ''href'' ''StyleSheets/TR/2016/base.css'')
                       (html_element (example_global ''finding'' [])) \<rparr>)
         \<and> map fst (querySelectorAll
                      (update_at [0, 1] (setAttribute ''href'' ''StyleSheets/TR/2016/base.css'')
                         (html_element (example_global ''finding'' [])))
                      (ByTagAttr ''link'' ''rel'' ''stylesheet''))
             = map fst (querySelectorAll (html_element (example_global ''finding'' []))
                          (ByTagAttr ''link'' ''rel'' ''stylesheet''))"
proof -
  have h1: "css_link_element (example_web []) (example_global ''finding'' [])
      = Some ([0, 1], Element ''link''
             [(''rel'', ''stylesheet''),
              (''href'', ''https://www.w3.org/StyleSheets/TR/2016/W3C-REC'')] [] [])"
    by code_simp
  have h2: "specStatus (config (example_global ''finding'' [])) = Some ''finding''"
    by code_simp
  have h3: "map_of specStatus_css (toUpperCase (example_web []) ''finding'') = None"
    by code_simp
  have h4: "''finding'' \<notin> set specStatus_simple"
    by code_simp
  show ?thesis
    by (rule unknown_status_base_only [OF h1 h2 h3 h4])
qed

lemma cg_draft_entry:
  "css_extras_of w ''CG-DRAFT'' = Some \<lparr> watermark = True, logo_name = ''back-cg-draft.png'',
           logo_media_type = Some ''image/png'', special_template = Some cg_draft_template \<rparr>"
  by (simp add: css_extras_of_def specStatus_css_def toUpperCase_def ascii_upper_def upper_char_def)

lemma cg_draft_template_nonempty: "cg_draft_template \<noteq> []"
  by (simp add: cg_draft_template_def text_of_lines_def)

lemma cg_draft_padding:
  "sublist ''padding-left: 160px'' (replace cg_draft_template ''%%%LOGO%%%'' ''back-cg-draft.png'')"
  by code_simp

text \<open>
  C5. With a stylesheet link of W3C and the status \<^verbatim>\<open>CG-DRAFT\<close>, \<^verbatim>\<open>extract\<close>
  returns the base stylesheet, the logo \<^verbatim>\<open>back-cg-draft.png\<close> of media type
  \<^verbatim>\<open>image/png\<close>, the watermark image at
  \<^verbatim>\<open>StyleSheets/TR/2016/logos/UD-watermark.png\<close> and the generated
  \<^verbatim>\<open>epub.css\<close>, whose text is the CG draft template with the logo name filled in and
  contains the rule \<^verbatim>\<open>padding-left: 160px\<close>; a link to the generated stylesheet is
  appended beside the link of W3C.
\<close>

theorem cg_draft_resources:
  assumes "css_link_element w g = Some (p, the_link)"
    and "specStatus (config g) = Some ''CG-DRAFT''"
  shows "css_extract w g =
           Inr ([\<lparr> relative_url = ''StyleSheets/TR/2016/base.css'',
                    media_type = Some ''text/css'',
                    absolute_url = Some ''https://www.w3.org/StyleSheets/TR/2016/base.css'',
                    text_content = None, id' = None, properties = None \<rparr>,
                 \<lparr> relative_url = ''StyleSheets/TR/2016/logos/back-cg-draft.png'',
                    media_type = Some ''image/png'',
                    absolute_url = Some ''https://www.w3.org/StyleSheets/TR/2016/logos/back-cg-draft.png'',
                    text_content = None, id' = None, properties = None \<rparr>,
                 \<lparr> relative_url = ''StyleSheets/TR/2016/logos/UD-watermark.png'',
                    media_type = Some ''image/png'',
                    absolute_url = Some ''https://www.w3.org/StyleSheets/TR/2016/logos/$UD-watermark.png'',
                    text_content = None, id' = None, properties = None \<rparr>,
                 \<lparr> relative_url = ''StyleSheets/TR/2016/epub.css'',
                    media_type = Some ''text/css'',
                    absolute_url = None,
                    text_content = Some (replace cg_draft_template ''%%%LOGO%%%'' ''back-cg-draft.png''),
                    id' = None, properties = None \<rparr>],
                g\<lparr> html_element :=
                     update_at (butlast p)
                       (append_child
                          (Element ''link''
                             [(''href'', ''StyleSheets/TR/2016/epub.css''), (''rel'', ''stylesheet'')]
                             [] []))
                       (update_at p (setAttribute ''href'' ''StyleSheets/TR/2016/base.css'')
                          (html_element g)) \<rparr>)
         \<and> sublist ''padding-left: 160px''
               (replace cg_draft_template ''%%%LOGO%%%'' ''back-cg-draft.png'')"
  using assms cg_draft_padding
  by (simp add: css_extract_def cg_draft_entry or_else_def cg_draft_template_nonempty Let_def)

theorem cg_draft_resources_witness:
  "css_extract (example_web []) (example_global ''CG-DRAFT'' []) =
           Inr ([\<lparr> relative_url = ''StyleSheets/TR/2016/base.css'',
                    media_type = Some ''text/css'',
                    absolute_url = Some ''https://www.w3.org/StyleSheets/TR/2016/base.css'',
                    text_content = None, id' = None, properties = None \<rparr>,
                 \<lparr> relative_url = ''StyleSheets/TR/2016/logos/back-cg-draft.png'',
                    media_type = Some ''image/png'',
                    absolute_url = Some ''https://www.w3.org/StyleSheets/TR/2016/logos/back-cg-draft.png'',
                    text_content = None, id' = None, properties = None \<rparr>,
                 \<lparr> relative_url = ''StyleSheets/TR/2016/logos/UD-watermark.png'',
                    media_type = Some ''image/png'',
                    absolute_url = Some ''https://www.w3.org/StyleSheets/TR/2016/logos/$UD-watermark.png'',
                    text_content = None, id' = None, properties = None \<rparr>,
                 \<lparr> relative_url = ''StyleSheets/TR/2016/epub.css'',
                    media_type = Some ''text/css'',
                    absolute_url = None,
                    text_content = Some (replace cg_draft_template ''%%%LOGO%%%'' ''back-cg-draft.png''),
                    id' = None, properties = None \<rparr>],
                (example_global ''CG-DRAFT'' [])\<lparr> html_element :=
                     update_at (butlast [0, 1])
                       (append_child
                          (Element ''link''
                             [(''href'', ''StyleSheets/TR/2016/epub.css''), (''rel'', ''stylesheet'')]
                             [] []))
                       (update_at [0, 1] (setAttribute ''href'' ''StyleSheets/TR/2016/base.css'')
                          (html_element (example_global ''CG-DRAFT'' []))) \<rparr>)
         \<and> sublist ''padding-left: 160px''
               (replace cg_draft_template ''%%%LOGO%%%'' ''back-cg-draft.png'')"
proof -
  have h1: "css_link_element (example_web []) (example_global ''CG-DRAFT'' [])
      = Some ([0, 1], Element ''link''
             [(''rel'', ''stylesheet''),
              (''href'', ''https://www.w3.org/StyleSheets/TR/2016/W3C-REC'')] [] [])"
    by code_simp
  have h2: "specStatus (config (example_global ''CG-DRAFT'' [])) = Some ''CG-DRAFT''"
    by code_simp
  show ?thesis
    by (rule cg_draft_resources [OF h1 h2])
qed

lemma watermark_statuses:
  "css_extras_of w st = Some ce \<Longrightarrow> watermark ce \<Longrightarrow>
   toUpperCase w st = ''UNOFFICIAL'' \<or> toUpperCase w st = ''CG-DRAFT''"
  unfolding css_extras_of_def Let_def
  by (auto simp: specStatus_css_def split: if_splits)

text \<open>
  C3. The table is looked up under the status in upper case, the simple list under the
  status as written. So \<^verbatim>\<open>REC\<close> gets the entry with no watermark and the logo
  \<^verbatim>\<open>REC.svg\<close>, while \<^verbatim>\<open>rec\<close>, whose upper case form is in the simple list, gets no
  entry at all: for the same document \<^verbatim>\<open>extract\<close> returns the base stylesheet, the
  logo and the generated stylesheet with \<^verbatim>\<open>REC\<close>, and the base stylesheet alone with
  \<^verbatim>\<open>rec\<close>. The result of the lookup depends on the letter case.
\<close>

theorem lowercase_regular_status_gets_no_logo:
  "toUpperCase (example_web []) ''rec'' = ''REC''
   \<and> ''REC'' \<in> set specStatus_simple
   \<and> css_extras_of (example_web []) ''REC'' =
         Some \<lparr> watermark = False, logo_name = ''REC.svg'',
                logo_media_type = None, special_template = None \<rparr>
   \<and> css_extras_of (example_web []) ''rec'' = None
   \<and> map_sum id (\<lambda>r. map relative_url (fst r)) (css_extract (example_web []) (example_global ''REC'' []))
       = Inr [''StyleSheets/TR/2016/base.css'', ''StyleSheets/TR/2016/logos/REC.svg'',
              ''StyleSheets/TR/2016/epub.css'']
   \<and> map_sum id (\<lambda>r. map relative_url (fst r)) (css_extract (example_web []) (example_global ''rec'' []))
       = Inr [''StyleSheets/TR/2016/base.css'']"
  by code_simp

section \<open>Properties of a run\<close>

lemma manifest_add_creators [simp]:
  "manifest (thePackage (add_creators cs pw)) = manifest (thePackage pw)"
  unfolding add_creators_def
  by (induction cs arbitrary: pw) (simp_all add: add_creator_def Let_def)

lemma manifest_add_dates [simp]:
  "manifest (thePackage (add_dates d pw)) = manifest (thePackage pw)"
  by (simp add: add_dates_def Let_def)

lemma manifest_new [simp]: "manifest (thePackage (new_PackageWrapper i t)) = []"
  by (simp add: new_PackageWrapper_def)

lemma add_manifest_items_hrefs:
  "map item_href (manifest (thePackage (add_manifest_items n rs pw)))
     = map item_href (manifest (thePackage pw)) @ filter (\<lambda>u. u \<noteq> []) (map relative_url rs)"
  by (induction rs arbitrary: n pw) (simp_all add: add_manifest_item_def)

lemma gather_global_fields:
  assumes "gather_global w c url = (Inr g0, reqs0)"
  shows "document_url g0 = url" and "resources g0 = []" and "manifest (thePackage (package g0)) = []"
  using assms
  by (auto simp: gather_global_def Let_def split: prod.splits sum.splits option.splits)

lemma add_W3C_logo_fields:
  "package (add_W3C_logo g) = package g"
  "config (add_W3C_logo g) = config g"
  "resources (add_W3C_logo g) = resources g \<or>
   resources (add_W3C_logo g) = resources g @
      [\<lparr> relative_url = ''StyleSheets/TR/2016/logos/W3C.svg'',
         media_type = Some ''image/svg+xml'',
         absolute_url = Some ''https://www.w3.org/StyleSheets/TR/2016/logos/W3C'',
         text_content = None, id' = None, properties = None \<rparr>]"
  by (auto simp: add_W3C_logo_def split: option.splits)

lemma css_extract_fields:
  assumes "css_extract w g = Inr (css, g')"
  shows "package g' = package g" and "resources g' = resources g"
  using assms
  by (auto simp: css_extract_def Let_def split: option.splits if_splits)

lemma logo_names:
  assumes "css_extras_of w st = Some ce"
  shows "logo_name ce \<in> {''UD.png'', ''WD.svg'', ''WG-Note.svg'', ''back-bg-draft.png'',
                          ''back-bg-final.png'', ''back-cg-draft.png'', ''back-cg-final.png'',
                          ''ED.svg'', ''CR.svg'', ''PR.svg'', ''PER.svg'', ''REC.svg'',
                          ''RSCND.svg'', ''OBSL.svg'', ''SPSD.svg''}"
  using assms unfolding css_extras_of_def Let_def
  by (auto simp: specStatus_css_def specStatus_simple_def split: if_splits)

lemma css_extract_paths:
  assumes "css_extract w g = Inr (css, g')"
  shows "distinct (map relative_url css)"
    and "''StyleSheets/TR/2016/logos/W3C.svg'' \<notin> set (map relative_url css)"
proof -
  show "distinct (map relative_url css)"
    using assms logo_names
    by (fastforce simp: css_extract_def Let_def split: option.splits if_splits)
  show "''StyleSheets/TR/2016/logos/W3C.svg'' \<notin> set (map relative_url css)"
    using assms logo_names
    by (fastforce simp: css_extract_def Let_def split: option.splits if_splits)
qed

lemma get_extra_resources_paths:
  assumes "get_extra_resources w so g = (Inr rs, reqs)"
  shows "map relative_url rs = uniq (target_urls w (html_element g))"
proof -
  define rel where "rel = uniq (target_urls w (html_element g))"
  define abs where "abs = map (\<lambda>ref. url_resolve w (document_url g) ref) rel"
  from assms obtain mts where pa: "Promise_all so (map fst (map (fetch_type w) abs)) = Inr mts"
    and rs: "rs = map (\<lambda>(r, m, a). \<lparr> relative_url = r, media_type = m, absolute_url = Some a,
                           text_content = None, id' = None, properties = None \<rparr>)
                   (zip rel (zip mts abs))"
    unfolding get_extra_resources_def Let_def rel_def [symmetric] abs_def [symmetric]
    by (auto split: sum.splits)
  from pa have "map fst (map (fetch_type w) abs) = map Inr mts"
    by (simp only: Promise_all_Inr_iff)
  then have "length mts = length abs"
    by (metis length_map)
  then have len: "length (zip mts abs) = length rel"
    by (simp add: abs_def)
  have "map relative_url rs = map fst (zip rel (zip mts abs))"
    by (simp add: rs case_prod_beta)
  also have "\<dots> = rel"
    using len by simp
  finally show ?thesis by (simp add: rel_def)
qed


lemma set_urls_to_fetch:
  "set (urls_to_fetch rs) = {u. \<exists>res \<in> set rs. absolute_url res = Some u \<and> u \<noteq> []}"
  unfolding urls_to_fetch_def
  by (induction rs) (auto simp: truthy_def split: option.splits)

lemma generate_epub_rejected:
  assumes "res \<in> set (resources g)" and "absolute_url res = Some u" and "u \<noteq> []"
    and "fst (fetch_resource w u False) = Inl e"
  shows "\<exists>e' res' u'. generate_epub w c so g n
                    = (Inl e', concat (map (\<lambda>u. snd (fetch_resource w u False)) (urls_to_fetch (resources g))))
               \<and> res' \<in> set (resources g) \<and> absolute_url res' = Some u' \<and> u' \<noteq> []
               \<and> fst (fetch_resource w u' False) = Inl e'"
proof -
  define results where
    "results = map fst (map (\<lambda>url. fetch_resource w url False) (urls_to_fetch (resources g)))"
  have "u \<in> set (urls_to_fetch (resources g))"
    using assms(1-3) by (auto simp: set_urls_to_fetch)
  then have "Inl e \<in> set results"
    using assms(4) by (force simp: results_def)
  from Promise_all_rejected [OF this, of so] obtain e'
    where pa: "Promise_all so results = Inl e'" and mem: "Inl e' \<in> set results"
    by blast
  from mem obtain u' where "u' \<in> set (urls_to_fetch (resources g))" "fst (fetch_resource w u' False) = Inl e'"
    by (auto simp: results_def)
  then obtain res' where "res' \<in> set (resources g)" "absolute_url res' = Some u'" "u' \<noteq> []"
    "fst (fetch_resource w u' False) = Inl e'"
    by (auto simp: set_urls_to_fetch)
  moreover have "generate_epub w c so g n
                    = (Inl e', concat (map (\<lambda>u. snd (fetch_resource w u False)) (urls_to_fetch (resources g))))"
    unfolding generate_epub_def Let_def serialize_def urls_to_fetch_def [symmetric]
    using pa by (simp add: results_def comp_def)
  ultimately show ?thesis
    by blast
qed

lemma generate_epub_Inr:
  "generate_epub w c so g n = (Inr (g', b), reqs) \<Longrightarrow> g' = g"
  by (auto simp: generate_epub_def serialize_def Let_def split: sum.splits)


lemma assemble_resources_Inr:
  assumes "assemble_resources w c g3 = Inr g8"
  shows "\<exists>css g4' g5 g6.
           css_extract w (add_W3C_logo g3) = Inr (css, g4')
         \<and> resources g8 = (create_nav_file c g6 @ create_cover_page c g5)
                            @ resources (add_W3C_logo g3) @ css
         \<and> map item_href (manifest (thePackage (package g8)))
             = map item_href (manifest (thePackage (package g3)))
               @ filter (\<lambda>u. u \<noteq> []) (map relative_url (resources g8))"
proof -
  from assms obtain css g4' where css: "css_extract w (add_W3C_logo g3) = Inr (css, g4')"
    by (auto simp: assemble_resources_def Let_def split: sum.splits)
  define g5 where "g5 = g4'\<lparr> resources := resources g4' @ css \<rparr>"
  define g6 where "g6 = g5\<lparr> resources := create_cover_page c g5 @ resources g5 \<rparr>"
  define g7 where "g7 = g6\<lparr> resources := create_nav_file c g6 @ resources g6 \<rparr>"
  have g8: "g8 = finalize_package g7"
    using assms css by (simp add: assemble_resources_def Let_def g5_def g6_def g7_def)
  have fields: "resources g4' = resources (add_W3C_logo g3)" "package g4' = package g3"
    using css_extract_fields [OF css] by (simp_all add: add_W3C_logo_fields)
  have res: "resources g8 = (create_nav_file c g6 @ create_cover_page c g5)
                            @ resources (add_W3C_logo g3) @ css"
    by (simp add: g8 finalize_package_def g7_def g6_def g5_def fields)
  have "package g7 = package g3" "resources g7 = resources g8"
    by (simp_all add: g8 finalize_package_def g7_def g6_def g5_def fields)
  then have "map item_href (manifest (thePackage (package g8)))
             = map item_href (manifest (thePackage (package g3)))
               @ filter (\<lambda>u. u \<noteq> []) (map relative_url (resources g8))"
    by (simp add: g8 finalize_package_def add_manifest_items_hrefs)
  with css res show ?thesis by blast
qed

lemma process_Inr:
  assumes "process w c sc sf url = (Inr (g, book), reqs)"
  shows "\<exists>g0 reqs0 collected reqs1.
           gather_global w c url = (Inr g0, reqs0)
         \<and> get_extra_resources w sc g0 = (Inr collected, reqs1)
         \<and> assemble_resources w c (g0\<lparr> resources := collected \<rparr>) = Inr g"
  using assms
  by (auto simp: process_def split: prod.splits sum.splits dest: generate_epub_Inr)

lemma run_result:
  "(case x of Inl e \<Rightarrow> None | Inr (g, book) \<Rightarrow> Some (f g)) = Some v \<Longrightarrow>
   \<exists>g book. x = Inr (g, book) \<and> f g = v"
  by (auto split: sum.splits prod.splits)

text \<open>
  C1, as the code has it. In a run that succeeds, the resources the collector returned
  have pairwise different relative URLs, and so have the resources appended after them
  (the W3C logo and what \<^verbatim>\<open>extract\<close> returns). The final list is the navigation file
  and the cover, the collected resources, then the appended ones; the manifest holds one
  item for every resource of the final list with a non-empty relative URL, in that order,
  with the relative URL as its \<^verbatim>\<open>href\<close>. So the \<^verbatim>\<open>href\<close>s are pairwise different
  when no collected path is one of the appended paths and the paths of the navigation file
  and the cover are different from each other and from all the other paths.
\<close>

theorem manifest_hrefs_of_a_run:
  assumes "process w c settle_collect settle_fetch url = (Inr (g, book), reqs)"
  shows "\<exists>g0 reqs0 collected reqs1 front appended.
           gather_global w c url = (Inr g0, reqs0)
         \<and> get_extra_resources w settle_collect g0 = (Inr collected, reqs1)
         \<and> (\<exists>css g4' g5 g6.
               css_extract w (add_W3C_logo (g0\<lparr> resources := collected \<rparr>)) = Inr (css, g4')
             \<and> collected @ appended = resources (add_W3C_logo (g0\<lparr> resources := collected \<rparr>)) @ css
             \<and> front = create_nav_file c g6 @ create_cover_page c g5)
         \<and> resources g = front @ collected @ appended
         \<and> distinct (map relative_url collected)
         \<and> distinct (map relative_url appended)
         \<and> map item_href (manifest (thePackage (package g)))
             = filter (\<lambda>u. u \<noteq> []) (map relative_url (resources g))
         \<and> (distinct (map relative_url front)
             \<and> set (map relative_url front) \<inter> set (map relative_url (collected @ appended)) = {}
             \<and> set (map relative_url collected) \<inter> set (map relative_url appended) = {}
            \<longrightarrow> distinct (map item_href (manifest (thePackage (package g)))))"
proof -
  from process_Inr [OF assms] obtain g0 reqs0 collected reqs1
    where gather: "gather_global w c url = (Inr g0, reqs0)"
      and collect: "get_extra_resources w settle_collect g0 = (Inr collected, reqs1)"
      and assemble: "assemble_resources w c (g0\<lparr> resources := collected \<rparr>) = Inr g"
    by blast
  define g3 where "g3 = g0\<lparr> resources := collected \<rparr>"
  from assemble_resources_Inr [OF assemble [folded g3_def]] obtain css g4' g5 g6
    where css: "css_extract w (add_W3C_logo g3) = Inr (css, g4')"
      and res: "resources g = (create_nav_file c g6 @ create_cover_page c g5)
                                @ resources (add_W3C_logo g3) @ css"
      and hrefs: "map item_href (manifest (thePackage (package g)))
             = map item_href (manifest (thePackage (package g3)))
               @ filter (\<lambda>u. u \<noteq> []) (map relative_url (resources g))"
    by blast
  define logo where "logo = drop (length collected) (resources (add_W3C_logo g3))"
  define appended where "appended = logo @ css"
  define front where "front = create_nav_file c g6 @ create_cover_page c g5"
  have logo_cases: "logo = [] \<or> logo = [\<lparr> relative_url = ''StyleSheets/TR/2016/logos/W3C.svg'',
         media_type = Some ''image/svg+xml'',
         absolute_url = Some ''https://www.w3.org/StyleSheets/TR/2016/logos/W3C'',
         text_content = None, id' = None, properties = None \<rparr>]"
    and logo: "resources (add_W3C_logo g3) = collected @ logo"
    using add_W3C_logo_fields(3) [of g3] by (auto simp: logo_def g3_def)
  have d1: "distinct (map relative_url collected)"
    by (simp add: get_extra_resources_paths [OF collect])
  have d2: "distinct (map relative_url appended)"
    using logo_cases css_extract_paths [OF css] by (auto simp: appended_def)
  have empty: "manifest (thePackage (package g3)) = []"
    using gather_global_fields(3) [OF gather] by (simp add: g3_def)
  have all: "resources g = front @ collected @ appended"
    by (simp add: res logo front_def appended_def)
  have m: "map item_href (manifest (thePackage (package g)))
             = filter (\<lambda>u. u \<noteq> []) (map relative_url (resources g))"
    by (simp add: hrefs empty)
  have last: "distinct (map relative_url front)
             \<and> set (map relative_url front) \<inter> set (map relative_url (collected @ appended)) = {}
             \<and> set (map relative_url collected) \<inter> set (map relative_url appended) = {}
            \<longrightarrow> distinct (map item_href (manifest (thePackage (package g))))"
    using d1 d2 by (auto simp: m all intro!: distinct_filter)
  have pin: "\<exists>css g4' g5 g6.
               css_extract w (add_W3C_logo (g0\<lparr> resources := collected \<rparr>)) = Inr (css, g4')
             \<and> collected @ appended = resources (add_W3C_logo (g0\<lparr> resources := collected \<rparr>)) @ css
             \<and> front = create_nav_file c g6 @ create_cover_page c g5"
    using css logo by (auto simp: g3_def appended_def front_def)
  from gather collect pin all d1 d2 m last show ?thesis
    by blast
qed

theorem manifest_hrefs_of_a_run_witness:
  "\<exists>g book reqs collected front appended.
      process (example_web full_net) (example_collaborators ''REC'' figure_body) [1, 0] [0, 2, 1, 3]
         ''https://example.org/TR/doc/Overview.html'' = (Inr (g, book), reqs)
    \<and> resources g = front @ collected @ appended
    \<and> distinct (map relative_url collected)
    \<and> distinct (map relative_url appended)
    \<and> map item_href (manifest (thePackage (package g)))
        = filter (\<lambda>u. u \<noteq> []) (map relative_url (resources g))
    \<and> map item_href (manifest (thePackage (package g)))
        = [''nav.xhtml'', ''cover.xhtml'', ''images/fig.png'', ''data/table.csv'',
           ''StyleSheets/TR/2016/base.css'', ''StyleSheets/TR/2016/logos/REC.svg'',
           ''StyleSheets/TR/2016/epub.css'']"
proof -
  let ?p = "process (example_web full_net) (example_collaborators ''REC'' figure_body) [1, 0] [0, 2, 1, 3]
           ''https://example.org/TR/doc/Overview.html''"
  have run: "(case fst ?p of
          Inl e \<Rightarrow> None
        | Inr (g, book) \<Rightarrow> Some (map item_href (manifest (thePackage (package g)))))
       = Some [''nav.xhtml'', ''cover.xhtml'', ''images/fig.png'', ''data/table.csv'',
           ''StyleSheets/TR/2016/base.css'', ''StyleSheets/TR/2016/logos/REC.svg'',
           ''StyleSheets/TR/2016/epub.css'']"
    by code_simp
  from run_result [OF run] obtain g book where ok: "fst ?p = Inr (g, book)"
    and hrefs: "map item_href (manifest (thePackage (package g)))
        = [''nav.xhtml'', ''cover.xhtml'', ''images/fig.png'', ''data/table.csv'',
           ''StyleSheets/TR/2016/base.css'', ''StyleSheets/TR/2016/logos/REC.svg'',
           ''StyleSheets/TR/2016/epub.css'']"
    by (elim exE conjE) (rule that)
  have h: "?p = (Inr (g, book), snd ?p)"
    by (rule prod_eqI) (simp_all only: fst_conv snd_conv ok)
  from manifest_hrefs_of_a_run [OF h]
  obtain collected front appended
    where f1: "resources g = front @ collected @ appended"
      and f2: "distinct (map relative_url collected)"
      and f3: "distinct (map relative_url appended)"
      and f4: "map item_href (manifest (thePackage (package g)))
        = filter (\<lambda>u. u \<noteq> []) (map relative_url (resources g))"
    by (elim exE conjE) (rule that)
  show ?thesis
    apply (rule exI [of _ g])
    apply (rule exI [of _ book])
    apply (rule exI [of _ "snd ?p"])
    apply (rule exI [of _ collected])
    apply (rule exI [of _ front])
    apply (rule exI [of _ appended])
    apply (intro conjI)
         apply (rule h)
        apply (rule f1)
       apply (rule f2)
      apply (rule f3)
     apply (rule f4)
    apply (rule hrefs)
    done
qed

text \<open>
  A document whose W3C logo is referred to by the relative path
  \<^verbatim>\<open>StyleSheets/TR/2016/logos/W3C.svg\<close>: the collector returns that path, step 4
  appends a resource with the same path, and the manifest has the \<^verbatim>\<open>href\<close> twice.
\<close>

theorem duplicate_href_counterexample:
  "(case fst (process (example_web logo_net) (example_collaborators ''REC'' logo_body) [] []
               ''https://example.org/TR/doc/Overview.html'') of
      Inl e \<Rightarrow> None
    | Inr (g, book) \<Rightarrow> Some (map item_href (manifest (thePackage (package g)))))
     = Some [''nav.xhtml'', ''cover.xhtml'', ''StyleSheets/TR/2016/logos/W3C.svg'',
             ''StyleSheets/TR/2016/logos/W3C.svg'', ''StyleSheets/TR/2016/base.css'',
             ''StyleSheets/TR/2016/logos/REC.svg'', ''StyleSheets/TR/2016/epub.css'']
   \<and> \<not> distinct [''nav.xhtml'', ''cover.xhtml'', ''StyleSheets/TR/2016/logos/W3C.svg'',
             ''StyleSheets/TR/2016/logos/W3C.svg'', ''StyleSheets/TR/2016/base.css'',
             ''StyleSheets/TR/2016/logos/REC.svg'', ''StyleSheets/TR/2016/epub.css'']"
  by code_simp



lemma generate_epub_requests:
  "snd (generate_epub w c so g n)
     = concat (map (\<lambda>u. snd (fetch_resource w u False)) (urls_to_fetch (resources g)))"
  unfolding generate_epub_def Let_def serialize_def urls_to_fetch_def [symmetric]
  by (simp add: comp_def split: sum.splits)

lemma fetch_resource_request:
  "check_Web_url w u = Inr fu \<Longrightarrow> snd (fetch_resource w u t) = [fu]"
  by (simp add: fetch_resource_def)

lemma watermark_extract:
  assumes "css_link_element w g = Some (p, the_link)"
    and "specStatus (config g) = Some st"
    and "css_extras_of w st = Some ce"
    and "watermark ce"
  shows "\<exists>rs g'. css_extract w g = Inr (rs, g')
          \<and> filter (\<lambda>r. relative_url r = ''StyleSheets/TR/2016/logos/UD-watermark.png'') rs
              = [\<lparr> relative_url = ''StyleSheets/TR/2016/logos/UD-watermark.png'',
                    media_type = Some ''image/png'',
                    absolute_url = Some ''https://www.w3.org/StyleSheets/TR/2016/logos/$UD-watermark.png'',
                    text_content = None, id' = None, properties = None \<rparr>]
          \<and> Some (''https://www.w3.org/'' @ ''StyleSheets/TR/2016/logos/UD-watermark.png'')
                \<notin> set (map absolute_url rs)"
proof -
  have "logo_name ce = ''UD.png'' \<or> logo_name ce = ''back-cg-draft.png''"
    using assms(3,4) unfolding css_extras_of_def Let_def
    by (auto simp: specStatus_css_def split: if_splits)
  then show ?thesis
    using assms by (auto simp: css_extract_def Let_def)
qed

text \<open>
  C10. A status whose mapping entry asks for a watermark is \<^verbatim>\<open>UNOFFICIAL\<close> or
  \<^verbatim>\<open>CG-DRAFT\<close> once in upper case. For it \<^verbatim>\<open>extract\<close> registers exactly one
  ResourceRef at \<^verbatim>\<open>StyleSheets/TR/2016/logos/UD-watermark.png\<close>, whose
  \<^verbatim>\<open>absolute_url\<close> is
  \<^verbatim>\<open>https://www.w3.org/StyleSheets/TR/2016/logos/$UD-watermark.png\<close>, with a dollar
  sign; none of the resources of \<^verbatim>\<open>extract\<close> is to be fetched from the location of
  W3C that the relative path names. In every run that gets through step 8 with this
  document, the resources of the run hold those of \<^verbatim>\<open>extract\<close>, the URL with the
  dollar sign is among the URLs that \<^verbatim>\<open>generate_epub\<close> hands to
  \<^verbatim>\<open>fetch_resource\<close>, the requests of \<^verbatim>\<open>generate_epub\<close> are those of these
  calls, so that the URL goes to the network once it has passed the checks, and
  \<^verbatim>\<open>generate_epub\<close> rejects when that fetch is rejected.
\<close>

theorem watermark_fetch_url:
  assumes "css_link_element w g = Some (p, the_link)"
    and "specStatus (config g) = Some st"
    and "css_extras_of w st = Some ce"
    and "watermark ce"
  shows "(toUpperCase w st = ''UNOFFICIAL'' \<or> toUpperCase w st = ''CG-DRAFT'')
     \<and> (\<exists>rs g'. css_extract w g = Inr (rs, g')
          \<and> filter (\<lambda>r. relative_url r = ''StyleSheets/TR/2016/logos/UD-watermark.png'') rs
              = [\<lparr> relative_url = ''StyleSheets/TR/2016/logos/UD-watermark.png'',
                    media_type = Some ''image/png'',
                    absolute_url = Some ''https://www.w3.org/StyleSheets/TR/2016/logos/$UD-watermark.png'',
                    text_content = None, id' = None, properties = None \<rparr>]
          \<and> Some (''https://www.w3.org/'' @ ''StyleSheets/TR/2016/logos/UD-watermark.png'')
                \<notin> set (map absolute_url rs)
          \<and> (\<forall>c settle_order g3 g8 epub_file_name.
                add_W3C_logo g3 = g \<and> assemble_resources w c g3 = Inr g8 \<longrightarrow>
                  set rs \<subseteq> set (resources g8)
                \<and> ''https://www.w3.org/StyleSheets/TR/2016/logos/$UD-watermark.png''
                      \<in> set (urls_to_fetch (resources g8))
                \<and> snd (generate_epub w c settle_order g8 epub_file_name)
                    = concat (map (\<lambda>url. snd (fetch_resource w url False))
                                (urls_to_fetch (resources g8)))
                \<and> (\<forall>final_url.
                      check_Web_url w ''https://www.w3.org/StyleSheets/TR/2016/logos/$UD-watermark.png''
                        = Inr final_url \<longrightarrow>
                      final_url \<in> set (snd (generate_epub w c settle_order g8 epub_file_name)))
                \<and> (\<forall>err.
                      fst (fetch_resource w
                             ''https://www.w3.org/StyleSheets/TR/2016/logos/$UD-watermark.png'' False)
                        = Inl err \<longrightarrow>
                      (\<exists>err'. fst (generate_epub w c settle_order g8 epub_file_name) = Inl err'))))"
proof -
  let ?D = "''https://www.w3.org/StyleSheets/TR/2016/logos/$UD-watermark.png''"
  let ?wm = "\<lparr> relative_url = ''StyleSheets/TR/2016/logos/UD-watermark.png'',
                    media_type = Some ''image/png'',
                    absolute_url = Some ?D,
                    text_content = None, id' = None, properties = None \<rparr>"
  have st: "toUpperCase w st = ''UNOFFICIAL'' \<or> toUpperCase w st = ''CG-DRAFT''"
    using assms(3,4) by (rule watermark_statuses)
  from watermark_extract [OF assms] obtain rs g'
    where ex: "css_extract w g = Inr (rs, g')"
      and one: "filter (\<lambda>r. relative_url r = ''StyleSheets/TR/2016/logos/UD-watermark.png'') rs = [?wm]"
      and canon: "Some (''https://www.w3.org/'' @ ''StyleSheets/TR/2016/logos/UD-watermark.png'')
                \<notin> set (map absolute_url rs)"
    by (elim exE conjE) (rule that)
  have "?wm \<in> set (filter (\<lambda>r. relative_url r = ''StyleSheets/TR/2016/logos/UD-watermark.png'') rs)"
    by (simp only: one list.set insertI1)
  then have wm_in: "?wm \<in> set rs"
    by simp
  have run: "set rs \<subseteq> set (resources g8)
                \<and> ?D \<in> set (urls_to_fetch (resources g8))
                \<and> snd (generate_epub w c so g8 n)
                    = concat (map (\<lambda>url. snd (fetch_resource w url False))
                                (urls_to_fetch (resources g8)))
                \<and> (\<forall>final_url. check_Web_url w ?D = Inr final_url \<longrightarrow>
                      final_url \<in> set (snd (generate_epub w c so g8 n)))
                \<and> (\<forall>err. fst (fetch_resource w ?D False) = Inl err \<longrightarrow>
                      (\<exists>err'. fst (generate_epub w c so g8 n) = Inl err'))"
    if g3: "add_W3C_logo g3 = g" and as: "assemble_resources w c g3 = Inr g8"
    for c so g3 g8 n
  proof -
    from assemble_resources_Inr [OF as] obtain css g4' g5 g6
      where css: "css_extract w (add_W3C_logo g3) = Inr (css, g4')"
        and res: "resources g8 = (create_nav_file c g6 @ create_cover_page c g5)
                            @ resources (add_W3C_logo g3) @ css"
      by (elim exE conjE) (rule that)
    from css ex g3 have "css = rs"
      by simp
    with res have sub: "set rs \<subseteq> set (resources g8)"
      by auto
    with wm_in have mem: "?wm \<in> set (resources g8)"
      by blast
    have "absolute_url ?wm = Some ?D"
      by simp
    with mem have inD: "?D \<in> set (urls_to_fetch (resources g8))"
      unfolding set_urls_to_fetch by (intro CollectI bexI [of _ ?wm]) simp_all
    have reqs: "snd (generate_epub w c so g8 n)
                    = concat (map (\<lambda>url. snd (fetch_resource w url False))
                                (urls_to_fetch (resources g8)))"
      by (rule generate_epub_requests)
    have handed: "final_url \<in> set (snd (generate_epub w c so g8 n))"
      if "check_Web_url w ?D = Inr final_url" for final_url
    proof -
      have "snd (fetch_resource w ?D False) = [final_url]"
        using that by (rule fetch_resource_request)
      with inD show ?thesis
        unfolding reqs by (simp only: set_concat set_map) force
    qed
    have fails: "\<exists>err'. fst (generate_epub w c so g8 n) = Inl err'"
      if "fst (fetch_resource w ?D False) = Inl err" for err
    proof -
      from generate_epub_rejected [OF mem _ _ that, of c so n]
      obtain e' where "fst (generate_epub w c so g8 n) = Inl e'"
        by fastforce
      then show ?thesis ..
    qed
    from sub inD reqs handed fails show ?thesis
      by blast
  qed
  from st ex one canon run show ?thesis
    by blast
qed

theorem watermark_fetch_url_witness:
  "((toUpperCase (example_web unofficial_net) ''unofficial'' = ''UNOFFICIAL''
      \<or> toUpperCase (example_web unofficial_net) ''unofficial'' = ''CG-DRAFT'')
     \<and> (\<exists>rs g'. css_extract (example_web unofficial_net) (example_global ''unofficial'' []) = Inr (rs, g')
          \<and> filter (\<lambda>r. relative_url r = ''StyleSheets/TR/2016/logos/UD-watermark.png'') rs
              = [\<lparr> relative_url = ''StyleSheets/TR/2016/logos/UD-watermark.png'',
                    media_type = Some ''image/png'',
                    absolute_url = Some ''https://www.w3.org/StyleSheets/TR/2016/logos/$UD-watermark.png'',
                    text_content = None, id' = None, properties = None \<rparr>]
          \<and> Some (''https://www.w3.org/'' @ ''StyleSheets/TR/2016/logos/UD-watermark.png'')
                \<notin> set (map absolute_url rs)
          \<and> (\<forall>c settle_order g3 g8 epub_file_name.
                add_W3C_logo g3 = example_global ''unofficial'' []
                \<and> assemble_resources (example_web unofficial_net) c g3 = Inr g8 \<longrightarrow>
                  set rs \<subseteq> set (resources g8)
                \<and> ''https://www.w3.org/StyleSheets/TR/2016/logos/$UD-watermark.png''
                      \<in> set (urls_to_fetch (resources g8))
                \<and> snd (generate_epub (example_web unofficial_net) c settle_order g8 epub_file_name)
                    = concat (map (\<lambda>url. snd (fetch_resource (example_web unofficial_net) url False))
                                (urls_to_fetch (resources g8)))
                \<and> (\<forall>final_url.
                      check_Web_url (example_web unofficial_net)
                          ''https://www.w3.org/StyleSheets/TR/2016/logos/$UD-watermark.png''
                        = Inr final_url \<longrightarrow>
                      final_url \<in> set (snd (generate_epub (example_web unofficial_net) c settle_order
                                               g8 epub_file_name)))
                \<and> (\<forall>err.
                      fst (fetch_resource (example_web unofficial_net)
                             ''https://www.w3.org/StyleSheets/TR/2016/logos/$UD-watermark.png'' False)
                        = Inl err \<longrightarrow>
                      (\<exists>err'. fst (generate_epub (example_web unofficial_net) c settle_order
                                      g8 epub_file_name) = Inl err')))))
   \<and> add_W3C_logo (example_global ''unofficial'' []) = example_global ''unofficial'' []
   \<and> (case assemble_resources (example_web unofficial_net) (example_collaborators ''unofficial'' [])
              (example_global ''unofficial'' []) of
         Inl e \<Rightarrow> None
       | Inr g8 \<Rightarrow> Some (urls_to_fetch (resources g8)))
       = Some [''https://www.w3.org/StyleSheets/TR/2016/base.css'',
               ''https://www.w3.org/StyleSheets/TR/2016/logos/UD.png'',
               ''https://www.w3.org/StyleSheets/TR/2016/logos/$UD-watermark.png'']
   \<and> process (example_web unofficial_net) (example_collaborators ''unofficial'' []) [] []
         ''https://example.org/TR/doc/Overview.html''
       = (Inl (Problem_accessing ''https://www.w3.org/StyleSheets/TR/2016/logos/$UD-watermark.png''
                 ''FetchError''),
          [''https://example.org/TR/doc/Overview.html'',
           ''https://www.w3.org/StyleSheets/TR/2016/base.css'',
           ''https://www.w3.org/StyleSheets/TR/2016/logos/UD.png'',
           ''https://www.w3.org/StyleSheets/TR/2016/logos/$UD-watermark.png''])"
proof -
  have h1: "css_link_element (example_web unofficial_net) (example_global ''unofficial'' [])
      = Some ([0, 1], Element ''link''
             [(''rel'', ''stylesheet''),
              (''href'', ''https://www.w3.org/StyleSheets/TR/2016/W3C-REC'')] [] [])"
    by code_simp
  have h2: "specStatus (config (example_global ''unofficial'' [])) = Some ''unofficial''"
    by code_simp
  have h3: "css_extras_of (example_web unofficial_net) ''unofficial'' =
      Some \<lparr> watermark = True, logo_name = ''UD.png'',
             logo_media_type = Some ''image/png'', special_template = Some undefined_template \<rparr>"
    by (simp add: css_extras_of_def specStatus_css_def toUpperCase_def ascii_upper_def upper_char_def)
  have h4: "watermark \<lparr> watermark = True, logo_name = ''UD.png'',
             logo_media_type = Some ''image/png'', special_template = Some undefined_template \<rparr>"
    by simp
  have r1: "add_W3C_logo (example_global ''unofficial'' []) = example_global ''unofficial'' []"
    by code_simp
  have r2: "(case assemble_resources (example_web unofficial_net) (example_collaborators ''unofficial'' [])
              (example_global ''unofficial'' []) of
         Inl e \<Rightarrow> None
       | Inr g8 \<Rightarrow> Some (urls_to_fetch (resources g8)))
       = Some [''https://www.w3.org/StyleSheets/TR/2016/base.css'',
               ''https://www.w3.org/StyleSheets/TR/2016/logos/UD.png'',
               ''https://www.w3.org/StyleSheets/TR/2016/logos/$UD-watermark.png'']"
    by code_simp
  have r3: "process (example_web unofficial_net) (example_collaborators ''unofficial'' []) [] []
         ''https://example.org/TR/doc/Overview.html''
       = (Inl (Problem_accessing ''https://www.w3.org/StyleSheets/TR/2016/logos/$UD-watermark.png''
                 ''FetchError''),
          [''https://example.org/TR/doc/Overview.html'',
           ''https://www.w3.org/StyleSheets/TR/2016/base.css'',
           ''https://www.w3.org/StyleSheets/TR/2016/logos/UD.png'',
           ''https://www.w3.org/StyleSheets/TR/2016/logos/$UD-watermark.png''])"
    by code_simp
  show ?thesis
    by (rule conjI [OF watermark_fetch_url [OF h1 h2 h3 h4] conjI [OF r1 conjI [OF r2 r3]]])
qed

section \<open>Properties of a collection\<close>

lemma later_date_max: "later_date a b = max a b"
  by (auto simp: later_date_def max_def)

lemma foldl_later_date: "foldl later_date d ds = Max (set (d # ds))"
proof -
  have "foldl later_date d ds = fold max ds d"
    by (simp add: foldl_conv_fold later_date_max [abs_def] max.commute)
  then show ?thesis
    by (simp only: Max.set_eq_fold)
qed

lemma reduce_dates_Max:
  "dates \<noteq> [] \<Longrightarrow> reduce_dates dates = Inr (Max (set dates))"
  by (cases dates) (simp_all add: reduce_dates_def foldl_later_date del: Max_insert set_simps(2))

text \<open>
  C8. For a collection with at least one chapter whose chapters all initialize,
  \<^verbatim>\<open>generate_book_data\<close> returns a book with the chapters in the order of the
  configuration, and the date of the book is the greatest of the chapters' dates (as
  strings, which is the order of dates written as year-month-day), whatever the order in
  which the chapters settle. Two chapters dated 2021-01-01 and 2021-06-01 give 2021-06-01.
\<close>

theorem merged_date_is_max:
  assumes "conf_chapters book_data \<noteq> []"
    and "\<forall>x \<in> set (enumerate 0 (conf_chapters book_data)).
           \<exists>ch. initialize (snd x) (fst x = 0) = Inr ch"
  shows "\<exists>book.
           generate_book_data initialize settle_order book_data = Inr book
         \<and> map Inr (book_chapters book)
             = map (\<lambda>(index, chapter_data). initialize chapter_data (index = 0))
                 (enumerate 0 (conf_chapters book_data))
         \<and> book_date book = Max (set (map chapter_date (book_chapters book)))
         \<and> (\<forall>other_order. generate_book_data initialize other_order book_data = Inr book)"
proof -
  define promises where
    "promises = map (\<lambda>(index, chapter_data). initialize chapter_data (index = 0))
                  (enumerate 0 (conf_chapters book_data))"
  define chapters where "chapters = map projr promises"
  have "p = Inr (projr p)" if "p \<in> set promises" for p
    using that assms(2) by (auto simp: promises_def)
  then have promises: "promises = map Inr chapters"
    by (simp add: chapters_def map_idI)
  have "length chapters = length (conf_chapters book_data)"
    by (simp add: chapters_def promises_def)
  with assms(1) have "chapters \<noteq> []"
    by auto
  then have dates: "reduce_dates (map chapter_date chapters) = Inr (Max (set (map chapter_date chapters)))"
    by (simp add: reduce_dates_Max)
  define book where
    "book = \<lparr> book_title = conf_title book_data, book_name = conf_name book_data,
              book_editors = uniq (concat (map chapter_editors chapters)),
              book_date = Max (set (map chapter_date chapters)),
              book_ocf = new_OCF (conf_name book_data @ ''.epub''),
              book_chapters = chapters \<rparr>"
  have pa: "Promise_all so promises = Inr chapters" for so
    by (simp only: promises Promise_all_Inr_iff)
  have run: "generate_book_data initialize so book_data = Inr book" for so
    unfolding generate_book_data_def Let_def promises_def [symmetric]
    by (simp only: pa sum.case dates book_def)
  show ?thesis
    using run promises
    by (intro exI [of _ book]) (simp add: book_def promises_def)
qed

theorem merged_date_is_max_witness:
  "(\<exists>book.
       generate_book_data example_initialize [1, 0] example_collection = Inr book
     \<and> map Inr (book_chapters book)
         = map (\<lambda>(index, chapter_data). example_initialize chapter_data (index = 0))
             (enumerate 0 (conf_chapters example_collection))
     \<and> book_date book = Max (set (map chapter_date (book_chapters book)))
     \<and> (\<forall>other_order. generate_book_data example_initialize other_order example_collection = Inr book))
   \<and> map_sum id book_date (generate_book_data example_initialize [1, 0] example_collection)
       = Inr ''2021-06-01''"
proof -
  have h1: "conf_chapters example_collection \<noteq> []"
    by code_simp
  have e: "enumerate 0 (conf_chapters example_collection)
      = [(0, \<lparr> chapter_url = ''https://example.org/TR/one/'', respec = False \<rparr>),
         (1, \<lparr> chapter_url = ''https://example.org/TR/two/'', respec = False \<rparr>)]"
    by code_simp
  have h2: "\<forall>x \<in> set (enumerate 0 (conf_chapters example_collection)).
           \<exists>ch. example_initialize (snd x) (fst x = 0) = Inr ch"
    unfolding e by (simp add: example_initialize_def)
  have run: "map_sum id book_date (generate_book_data example_initialize [1, 0] example_collection)
       = Inr ''2021-06-01''"
    by code_simp
  show ?thesis
    by (rule conjI [OF merged_date_is_max [OF h1 h2] run])
qed

end
